theory Spec2Isabelle
  imports Main "HOL-Library.Sublist"
begin

section \<open>Errors\<close>

text \<open>
  Go's \<^verbatim>\<open>error\<close> values. The store's distinguished not-found status error
  (recognised by \<^verbatim>\<open>apierrors.IsNotFound\<close>), any other error carrying its message
  (store failures, hook failures, \<^verbatim>\<open>fmt.Errorf\<close>), and \<^verbatim>\<open>errors.Wrapf\<close>.
\<close>

datatype error =
    NotFoundErr string
  | Err string
  | Wrapf error string

text \<open>
  \<^verbatim>\<open>err.Error()\<close>: the text that the verb \<^verbatim>\<open>%s\<close> prints. \<^verbatim>\<open>apierrors.IsNotFound\<close>
  looks through the wrapping of \<^verbatim>\<open>errors.Wrapf\<close>; an error made by \<^verbatim>\<open>fmt.Errorf\<close> with
  \<^verbatim>\<open>%s\<close> only keeps the text.
\<close>

fun Error :: "error \<Rightarrow> string" where
  "Error (NotFoundErr n) = n @ '' not found''"
| "Error (Err m) = m"
| "Error (Wrapf e m) = m @ '': '' @ Error e"

fun IsNotFound :: "error \<Rightarrow> bool" where
  "IsNotFound (NotFoundErr n) = True"
| "IsNotFound (Err m) = False"
| "IsNotFound (Wrapf e m) = IsNotFound e"

section \<open>Cluster-config namespaces (package argocd)\<close>

text \<open>
  The loop \<^verbatim>\<open>for _, n := range clusterConfigNamespaces\<close> of \<^verbatim>\<open>IsClusterConfigNs\<close>,
  returning at the first element equal to \<^verbatim>\<open>current\<close>.
\<close>

fun rangeContains :: "string list \<Rightarrow> string \<Rightarrow> bool" where
  "rangeContains [] current = False"
| "rangeContains (n # ns) current = (if n = current then True else rangeContains ns current)"

text \<open>
  \<^verbatim>\<open>IsClusterConfigNs\<close>. \<^verbatim>\<open>argoutil.SplitList\<close> is not among the sources and the
  environment variable is read from the process, so both are parameters: \<open>SplitList\<close> is
  the splitting function and \<open>env\<close> the value of \<^verbatim>\<open>GetClusterConfigNamespaces()\<close>.
  The index \<^verbatim>\<open>[0]\<close> is only read under \<^verbatim>\<open>len > 0\<close>, which the case on the list keeps.
\<close>

definition IsClusterConfigNs :: "(string \<Rightarrow> string list) \<Rightarrow> string \<Rightarrow> string \<Rightarrow> bool" where
  "IsClusterConfigNs SplitList env current =
     (let clusterConfigNamespaces = SplitList env in
      case clusterConfigNamespaces of
        [] \<Rightarrow> False
      | first # rest \<Rightarrow>
          if first = ''*'' then True
          else rangeContains clusterConfigNamespaces current)"

section \<open>Objects\<close>

text \<open>
  \<^verbatim>\<open>metav1.ObjectMeta\<close>, the part of it that the sources read or write. Owner references
  are kept as the names of the owners; the deletion timestamp is \<open>None\<close> for Go's nil.
\<close>

record ObjectMeta =
  Name :: string
  Namespace :: string
  Labels :: "string \<rightharpoonup> string"
  Annotations :: "string \<rightharpoonup> string"
  OwnerReferences :: "string list"
  DeletionTimestamp :: "string option"

text \<open>
  \<^verbatim>\<open>corev1.Service\<close> and \<^verbatim>\<open>appsv1.StatefulSet\<close> embed the object metadata; their
  kind-specific payload is a field-to-value table that the constructors leave at its zero
  value and that mutation hooks may fill.
\<close>

record Service = ObjectMeta +
  ServiceSpec :: "string \<rightharpoonup> string"

record StatefulSet = ObjectMeta +
  StatefulSetSpec :: "string \<rightharpoonup> string"

section \<open>Helpers of package argoutil\<close>

text \<open>
  Modelled from the spec: \<^verbatim>\<open>argoutil.GenerateResourceName\<close>, \<^verbatim>\<open>argoutil.LabelsForCluster\<close>,
  \<^verbatim>\<open>argoutil.AnnotationsForCluster\<close> and \<^verbatim>\<open>argoutil.GetObjMeta\<close> are not among the sources.
  The spec says that the component tag and the parent name together determine a
  deterministic generated name and that the defaults are derived from the parent identity
  and the component; nothing more is fixed, so the four are functions of exactly the
  arguments they are called with, passed to the builders and reconcilers as a table.
\<close>

record argoutil =
  GenerateResourceName :: "string \<Rightarrow> string \<Rightarrow> string"
  LabelsForCluster :: "string \<Rightarrow> string \<Rightarrow> (string \<rightharpoonup> string)"
  AnnotationsForCluster :: "string \<Rightarrow> string \<Rightarrow> (string \<rightharpoonup> string)"
  GetObjMeta :: "string \<Rightarrow> string \<Rightarrow> string \<Rightarrow> string \<Rightarrow> string \<Rightarrow> ObjectMeta"

text \<open>
  Modelled from the spec: \<^verbatim>\<open>argoutil.MergeMaps\<close> is not among the sources. Defaults are
  computed first and the request's map is merged on top, the request's keys winning on
  collision; neither input is changed.
\<close>

definition MergeMaps :: "(string \<rightharpoonup> string) \<Rightarrow> (string \<rightharpoonup> string) \<Rightarrow> (string \<rightharpoonup> string)" where
  "MergeMaps defaults overrides = defaults ++ overrides"

section \<open>Mutation hooks and builders (packages networking, workloads)\<close>

text \<open>
  \<^verbatim>\<open>mutation.MutateFunc\<close> as the builders call it: \<^verbatim>\<open>mutation(nil, resource, client)\<close>.
  The first argument is always nil and is left out; the hook receives the client handle
  and the object, mutates the object in place (the model returns it) and may return an
  error (\<open>None\<close> is nil).
\<close>

type_synonym ('c, 'o) MutateFunc = "'c \<Rightarrow> 'o \<Rightarrow> 'o \<times> error option"

record 'c ServiceRequest =
  svcName :: string
  svcInstanceName :: string
  svcInstanceNamespace :: string
  svcComponent :: string
  svcLabels :: "string \<rightharpoonup> string"
  svcAnnotations :: "string \<rightharpoonup> string"
  svcMutations :: "('c, Service) MutateFunc list"
  svcClient :: 'c

record 'c StatefulSetRequest =
  stsName :: string
  stsInstanceName :: string
  stsNamespace :: string
  stsComponent :: string
  stsLabels :: "string \<rightharpoonup> string"
  stsMutations :: "('c, StatefulSet) MutateFunc list"
  stsClient :: 'c

definition newService ::
  "argoutil \<Rightarrow> string \<Rightarrow> string \<Rightarrow> string \<Rightarrow> string \<Rightarrow> (string \<rightharpoonup> string) \<Rightarrow> (string \<rightharpoonup> string) \<Rightarrow> Service" where
  "newService U name instanceName instanceNamespace component labels annotations =
     (let serviceName =
            (if name \<noteq> '''' then name else GenerateResourceName U instanceName component)
      in \<lparr> Name = serviceName,
           Namespace = instanceNamespace,
           Labels = MergeMaps (LabelsForCluster U instanceName component) labels,
           Annotations = MergeMaps (AnnotationsForCluster U instanceName instanceNamespace) annotations,
           OwnerReferences = [],
           DeletionTimestamp = None,
           ServiceSpec = Map.empty \<rparr>)"

definition newStatefulSet ::
  "argoutil \<Rightarrow> string \<Rightarrow> string \<Rightarrow> string \<Rightarrow> string \<Rightarrow> (string \<rightharpoonup> string) \<Rightarrow> StatefulSet" where
  "newStatefulSet U name instanceName namespace component labels =
     (let StatefulSetName =
            (if name \<noteq> '''' then name else GenerateResourceName U instanceName component)
      in \<lparr> Name = StatefulSetName,
           Namespace = namespace,
           Labels = MergeMaps (LabelsForCluster U instanceName component) labels,
           Annotations = Map.empty,
           OwnerReferences = [],
           DeletionTimestamp = None,
           StatefulSetSpec = Map.empty \<rparr>)"

text \<open>
  The loop \<^verbatim>\<open>for _, mutation := range request.Mutations\<close> of \<^verbatim>\<open>RequestService\<close> and
  \<^verbatim>\<open>RequestStatefulSet\<close>: every hook is called on the object as the previous hooks left
  it, and a non-nil result overwrites \<^verbatim>\<open>mutationErr\<close>.
\<close>

fun rangeMutations ::
  "('c, 'o) MutateFunc list \<Rightarrow> 'c \<Rightarrow> 'o \<times> error option \<Rightarrow> 'o \<times> error option" where
  "rangeMutations [] client (obj, mutationErr) = (obj, mutationErr)"
| "rangeMutations (mutation # rest) client (obj, mutationErr) =
     (case mutation client obj of
        (obj', None) \<Rightarrow> rangeMutations rest client (obj', mutationErr)
      | (obj', Some err) \<Rightarrow> rangeMutations rest client (obj', Some err))"

definition RequestService :: "argoutil \<Rightarrow> 'c ServiceRequest \<Rightarrow> Service \<times> error option" where
  "RequestService U request =
     (let service = newService U (svcName request) (svcInstanceName request)
                      (svcInstanceNamespace request) (svcComponent request)
                      (svcLabels request) (svcAnnotations request)
      in if length (svcMutations request) > 0 then
           (case rangeMutations (svcMutations request) (svcClient request) (service, None) of
              (service', Some mutationErr) \<Rightarrow>
                (service', Some (Err (''RequestService: one or more mutation functions could not be applied: '' @ Error mutationErr)))
            | (service', None) \<Rightarrow> (service', None))
         else (service, None))"

definition RequestStatefulSet :: "argoutil \<Rightarrow> 'c StatefulSetRequest \<Rightarrow> StatefulSet \<times> error option" where
  "RequestStatefulSet U request =
     (let StatefulSet = newStatefulSet U (stsName request) (stsInstanceName request)
                          (stsNamespace request) (stsComponent request) (stsLabels request)
      in if length (stsMutations request) > 0 then
           (case rangeMutations (stsMutations request) (stsClient request) (StatefulSet, None) of
              (StatefulSet', Some mutationErr) \<Rightarrow>
                (StatefulSet', Some (Err (''RequestStatefulSet: one or more mutation functions could not be applied: '' @ Error mutationErr)))
            | (StatefulSet', None) \<Rightarrow> (StatefulSet', None))
         else (StatefulSet, None))"

section \<open>The store client\<close>

text \<open>
  Modelled from the spec: the store client (\<^verbatim>\<open>ctrlClient.Client\<close>) is an external
  collaborator with the contract \<^verbatim>\<open>Get(key) -> (Object, NotFoundError|Error)\<close>,
  \<^verbatim>\<open>Create(Object) -> Error\<close>, \<^verbatim>\<open>Update(Object) -> Error\<close>,
  \<^verbatim>\<open>Delete(key) -> (NotFoundError|Error)\<close>. A client holds the objects of one kind under
  their namespaced names, a table of the errors the store answers a call with instead of
  carrying it out (none for a store that works), and the list of the calls made so far, in
  order. A call is recorded, then it fails with the error of the table if there is one,
  and otherwise acts on the objects: reading or deleting an absent object and updating one
  are not-found errors, creating a present one is an error.
\<close>

type_synonym NamespacedName = "string \<times> string"

datatype call =
    Get NamespacedName
  | Create NamespacedName
  | Update NamespacedName
  | Delete NamespacedName

record 'o client =
  objects :: "NamespacedName \<rightharpoonup> 'o"
  faults :: "call \<Rightarrow> error option"
  calls :: "call list"

definition key_of :: "'a ObjectMeta_scheme \<Rightarrow> NamespacedName" where
  "key_of obj = (Namespace obj, Name obj)"

definition client_Get ::
  "NamespacedName \<Rightarrow> 'o client \<Rightarrow> (error + 'o) \<times> 'o client" where
  "client_Get key c =
     (let c' = c\<lparr>calls := calls c @ [Get key]\<rparr> in
      case faults c (Get key) of
        Some e \<Rightarrow> (Inl e, c')
      | None \<Rightarrow>
          (case objects c key of
             None \<Rightarrow> (Inl (NotFoundErr (snd key)), c')
           | Some obj \<Rightarrow> (Inr obj, c')))"

definition client_Create ::
  "'a ObjectMeta_scheme \<Rightarrow> 'a ObjectMeta_scheme client \<Rightarrow> error option \<times> 'a ObjectMeta_scheme client" where
  "client_Create obj c =
     (let key = key_of obj; c' = c\<lparr>calls := calls c @ [Create key]\<rparr> in
      case faults c (Create key) of
        Some e \<Rightarrow> (Some e, c')
      | None \<Rightarrow>
          (case objects c key of
             Some old \<Rightarrow> (Some (Err (snd key @ '' already exists'')), c')
           | None \<Rightarrow> (None, c'\<lparr>objects := (objects c)(key \<mapsto> obj)\<rparr>)))"

definition client_Update ::
  "'a ObjectMeta_scheme \<Rightarrow> 'a ObjectMeta_scheme client \<Rightarrow> error option \<times> 'a ObjectMeta_scheme client" where
  "client_Update obj c =
     (let key = key_of obj; c' = c\<lparr>calls := calls c @ [Update key]\<rparr> in
      case faults c (Update key) of
        Some e \<Rightarrow> (Some e, c')
      | None \<Rightarrow>
          (case objects c key of
             None \<Rightarrow> (Some (NotFoundErr (snd key)), c')
           | Some old \<Rightarrow> (None, c'\<lparr>objects := (objects c)(key \<mapsto> obj)\<rparr>)))"

definition client_Delete ::
  "'a ObjectMeta_scheme \<Rightarrow> 'a ObjectMeta_scheme client \<Rightarrow> error option \<times> 'a ObjectMeta_scheme client" where
  "client_Delete obj c =
     (let key = key_of obj; c' = c\<lparr>calls := calls c @ [Delete key]\<rparr> in
      case faults c (Delete key) of
        Some e \<Rightarrow> (Some e, c')
      | None \<Rightarrow>
          (case objects c key of
             None \<Rightarrow> (Some (NotFoundErr (snd key)), c')
           | Some old \<Rightarrow> (None, c'\<lparr>objects := (objects c)(key := None)\<rparr>)))"

section \<open>Services (package networking)\<close>

definition CreateService :: "Service \<Rightarrow> Service client \<Rightarrow> error option \<times> Service client" where
  "CreateService service client = client_Create service client"

definition GetService :: "string \<Rightarrow> string \<Rightarrow> Service client \<Rightarrow> (error + Service) \<times> Service client" where
  "GetService name namespace client =
     (case client_Get (namespace, name) client of
        (Inl err, client') \<Rightarrow> (Inl err, client')
      | (Inr existingService, client') \<Rightarrow> (Inr existingService, client'))"

definition UpdateService :: "Service \<Rightarrow> Service client \<Rightarrow> error option \<times> Service client" where
  "UpdateService service client =
     (case GetService (Name service) (Namespace service) client of
        (Inl err, client') \<Rightarrow> (Some err, client')
      | (Inr fetched, client') \<Rightarrow>
          (case client_Update service client' of
             (Some err, client'') \<Rightarrow> (Some err, client'')
           | (None, client'') \<Rightarrow> (None, client'')))"

definition DeleteService :: "string \<Rightarrow> string \<Rightarrow> Service client \<Rightarrow> error option \<times> Service client" where
  "DeleteService name namespace client =
     (case GetService name namespace client of
        (Inl err, client') \<Rightarrow>
          (if \<not> IsNotFound err then (Some err, client') else (None, client'))
      | (Inr existingService, client') \<Rightarrow>
          (case client_Delete existingService client' of
             (Some err, client'') \<Rightarrow> (Some err, client'')
           | (None, client'') \<Rightarrow> (None, client'')))"

section \<open>Stateful sets (package workloads)\<close>

definition CreateStatefulSet :: "StatefulSet \<Rightarrow> StatefulSet client \<Rightarrow> error option \<times> StatefulSet client" where
  "CreateStatefulSet StatefulSet client = client_Create StatefulSet client"

definition GetStatefulSet ::
  "string \<Rightarrow> string \<Rightarrow> StatefulSet client \<Rightarrow> (error + StatefulSet) \<times> StatefulSet client" where
  "GetStatefulSet name namespace client =
     (case client_Get (namespace, name) client of
        (Inl err, client') \<Rightarrow> (Inl err, client')
      | (Inr existingStatefulSet, client') \<Rightarrow> (Inr existingStatefulSet, client'))"

definition UpdateStatefulSet :: "StatefulSet \<Rightarrow> StatefulSet client \<Rightarrow> error option \<times> StatefulSet client" where
  "UpdateStatefulSet StatefulSet client =
     (case GetStatefulSet (Name StatefulSet) (Namespace StatefulSet) client of
        (Inl err, client') \<Rightarrow> (Some err, client')
      | (Inr fetched, client') \<Rightarrow>
          (case client_Update StatefulSet client' of
             (Some err, client'') \<Rightarrow> (Some err, client'')
           | (None, client'') \<Rightarrow> (None, client'')))"

definition DeleteStatefulSet :: "string \<Rightarrow> string \<Rightarrow> StatefulSet client \<Rightarrow> error option \<times> StatefulSet client" where
  "DeleteStatefulSet name namespace client =
     (case GetStatefulSet name namespace client of
        (Inl err, client') \<Rightarrow>
          (if \<not> IsNotFound err then (Some err, client') else (None, client'))
      | (Inr existingStatefulSet, client') \<Rightarrow>
          (case client_Delete existingStatefulSet client' of
             (Some err, client'') \<Rightarrow> (Some err, client'')
           | (None, client'') \<Rightarrow> (None, client'')))"

section \<open>Field comparator (package argocdcommon)\<close>

text \<open>
  Modelled from the spec: \<^verbatim>\<open>argocdcommon.FieldToCompare\<close> and
  \<^verbatim>\<open>argocdcommon.UpdateIfChanged\<close> are not among the sources. An entry is a triple of a
  reference to an existing field, a reference to a desired field and an optional action.
  The fields live in a store \<open>h\<close> from references to values. The entries are visited in
  order; for an entry whose existing field differs from its desired field the existing
  field is overwritten with the desired value, then the entry's action (if any) runs, and
  \<open>changed\<close> is set. The callers pass \<open>changed\<close> by reference, initialised to false.
\<close>

record ('r, 'v) FieldToCompare =
  Existing :: 'r
  Desired :: 'r
  ExtraAction :: "(('r \<Rightarrow> 'v) \<Rightarrow> ('r \<Rightarrow> 'v)) option"

fun UpdateIfChanged ::
  "('r, 'v) FieldToCompare list \<Rightarrow> ('r \<Rightarrow> 'v) \<times> bool \<Rightarrow> ('r \<Rightarrow> 'v) \<times> bool" where
  "UpdateIfChanged [] (h, changed) = (h, changed)"
| "UpdateIfChanged (field # rest) (h, changed) =
     (if h (Existing field) \<noteq> h (Desired field) then
        (let h1 = h(Existing field := h (Desired field));
             h2 = (case ExtraAction field of None \<Rightarrow> h1 | Some action \<Rightarrow> action h1)
         in UpdateIfChanged rest (h2, True))
      else UpdateIfChanged rest (h, changed))"

section \<open>Owner references, logging, the cluster\<close>

text \<open>
  Modelled from the spec: \<^verbatim>\<open>controllerutil.SetControllerReference\<close> is an external
  collaborator with the contract \<^verbatim>\<open>Attach(child, parent) -> Error\<close>. The scheme decides
  whether the owner can be referenced (\<open>None\<close>) or with which error the attachment fails;
  on success the owner is recorded on the object, on failure the object is unchanged.
\<close>

type_synonym scheme = "ObjectMeta \<Rightarrow> error option"

definition SetControllerReference ::
  "ObjectMeta \<Rightarrow> 'a ObjectMeta_scheme \<Rightarrow> scheme \<Rightarrow> 'a ObjectMeta_scheme \<times> error option" where
  "SetControllerReference owner controlled sch =
     (case sch owner of
        Some e \<Rightarrow> (controlled, Some e)
      | None \<Rightarrow> (controlled\<lparr>OwnerReferences := OwnerReferences controlled @ [Name owner]\<rparr>, None))"

text \<open>The reconcilers' logger: the level, the error of an error entry, and the message.\<close>

datatype logEntry =
    LogInfo string
  | LogError error string
  | LogDebug string

record ConfigMap = ObjectMeta +
  Data :: "string \<rightharpoonup> string"

record RoleRef =
  RoleRefAPIGroup :: string
  RoleRefKind :: string
  RoleRefName :: string

record Subject =
  SubjectKind :: string
  SubjectName :: string
  SubjectNamespace :: string

record RoleBinding = ObjectMeta +
  RoleRef :: RoleRef
  Subjects :: "Subject list"

text \<open>
  What the reconcilers act on: one store client per kind of object (roles, service
  accounts and namespaces are only used through their metadata), and the log.
\<close>

record cluster =
  ConfigMaps :: "ConfigMap client"
  RoleBindings :: "RoleBinding client"
  Roles :: "ObjectMeta client"
  ServiceAccounts :: "ObjectMeta client"
  Namespaces :: "ObjectMeta client"
  Log :: "logEntry list"

section \<open>Config maps (package workloads)\<close>

text \<open>
  Modelled from the spec: \<^verbatim>\<open>workloads.ConfigMapRequest\<close>, \<^verbatim>\<open>workloads.RequestConfigMap\<close>,
  \<^verbatim>\<open>GetConfigMap\<close>, \<^verbatim>\<open>CreateConfigMap\<close>, \<^verbatim>\<open>UpdateConfigMap\<close> and \<^verbatim>\<open>DeleteConfigMap\<close> are
  not among the sources. They are the builder (\<^verbatim>\<open>Build(request)\<close>: the object of the
  request, run through the hooks) and the store operations of the spec for config maps,
  written as their siblings for services in package networking are.
\<close>

record 'c ConfigMapRequest =
  cmObjectMeta :: ObjectMeta
  cmData :: "string \<rightharpoonup> string"
  cmMutations :: "('c, ConfigMap) MutateFunc list"
  cmClient :: 'c

definition newConfigMap :: "ObjectMeta \<Rightarrow> (string \<rightharpoonup> string) \<Rightarrow> ConfigMap" where
  "newConfigMap objMeta data =
     \<lparr> Name = Name objMeta, Namespace = Namespace objMeta, Labels = Labels objMeta,
       Annotations = Annotations objMeta, OwnerReferences = OwnerReferences objMeta,
       DeletionTimestamp = DeletionTimestamp objMeta, Data = data \<rparr>"

definition RequestConfigMap :: "'c ConfigMapRequest \<Rightarrow> ConfigMap \<times> error option" where
  "RequestConfigMap request =
     (let configMap = newConfigMap (cmObjectMeta request) (cmData request)
      in if length (cmMutations request) > 0 then
           (case rangeMutations (cmMutations request) (cmClient request) (configMap, None) of
              (configMap', Some mutationErr) \<Rightarrow>
                (configMap', Some (Err (''RequestConfigMap: one or more mutation functions could not be applied: '' @ Error mutationErr)))
            | (configMap', None) \<Rightarrow> (configMap', None))
         else (configMap, None))"

definition CreateConfigMap :: "ConfigMap \<Rightarrow> ConfigMap client \<Rightarrow> error option \<times> ConfigMap client" where
  "CreateConfigMap configMap client = client_Create configMap client"

definition GetConfigMap ::
  "string \<Rightarrow> string \<Rightarrow> ConfigMap client \<Rightarrow> (error + ConfigMap) \<times> ConfigMap client" where
  "GetConfigMap name namespace client =
     (case client_Get (namespace, name) client of
        (Inl err, client') \<Rightarrow> (Inl err, client')
      | (Inr existingConfigMap, client') \<Rightarrow> (Inr existingConfigMap, client'))"

definition UpdateConfigMap :: "ConfigMap \<Rightarrow> ConfigMap client \<Rightarrow> error option \<times> ConfigMap client" where
  "UpdateConfigMap configMap client =
     (case GetConfigMap (Name configMap) (Namespace configMap) client of
        (Inl err, client') \<Rightarrow> (Some err, client')
      | (Inr fetched, client') \<Rightarrow>
          (case client_Update configMap client' of
             (Some err, client'') \<Rightarrow> (Some err, client'')
           | (None, client'') \<Rightarrow> (None, client'')))"

definition DeleteConfigMap :: "string \<Rightarrow> string \<Rightarrow> ConfigMap client \<Rightarrow> error option \<times> ConfigMap client" where
  "DeleteConfigMap name namespace client =
     (case GetConfigMap name namespace client of
        (Inl err, client') \<Rightarrow>
          (if \<not> IsNotFound err then (Some err, client') else (None, client'))
      | (Inr existingConfigMap, client') \<Rightarrow>
          (case client_Delete existingConfigMap client' of
             (Some err, client'') \<Rightarrow> (Some err, client'')
           | (None, client'') \<Rightarrow> (None, client'')))"

section \<open>The Redis HA config map (package redis)\<close>

definition haproxyCfgKey :: string where "haproxyCfgKey = ''haproxy.cfg''"
definition haproxyScriptKey :: string where "haproxyScriptKey = ''haproxy_init.sh''"
definition initScriptKey :: string where "initScriptKey = ''init.sh''"
definition redisConfKey :: string where "redisConfKey = ''redis.conf''"
definition sentinelConfKey :: string where "sentinelConfKey = ''sentinel.Conf''"

text \<open>
  The receiver \<^verbatim>\<open>rr *RedisReconciler\<close>: the instance, the scheme, and what is read from
  outside the sources: the results of the five configuration builders (methods of the
  receiver without arguments) and the constants \<^verbatim>\<open>common.ArgoCDRedisHAConfigMapName\<close> and
  \<^verbatim>\<open>component\<close>. The client and the logger are in the cluster state.
\<close>

record RedisReconciler =
  rrInstance :: ObjectMeta
  rrScheme :: scheme
  getHAProxyConfig :: string
  getHAProxyScript :: string
  getInitScript :: string
  getConf :: string
  getSentinelConf :: string
  ArgoCDRedisHAConfigMapName :: string
  component :: string

text \<open>
  The references \<^verbatim>\<open>&existing.Labels\<close>, \<^verbatim>\<open>&desired.Labels\<close>, ... of the comparator table
  of \<^verbatim>\<open>reconcileHAConfigMap\<close>, and the store that holds the fields they point to.
\<close>

datatype cmRef =
    ExistingLabels | ExistingAnnotations | ExistingData
  | DesiredLabels | DesiredAnnotations | DesiredData

fun cmFields :: "ConfigMap \<Rightarrow> ConfigMap \<Rightarrow> cmRef \<Rightarrow> (string \<rightharpoonup> string)" where
  "cmFields existing desired ExistingLabels = Labels existing"
| "cmFields existing desired ExistingAnnotations = Annotations existing"
| "cmFields existing desired ExistingData = Data existing"
| "cmFields existing desired DesiredLabels = Labels desired"
| "cmFields existing desired DesiredAnnotations = Annotations desired"
| "cmFields existing desired DesiredData = Data desired"

definition reconcileHAConfigMap ::
  "argoutil \<Rightarrow> RedisReconciler \<Rightarrow> cluster \<Rightarrow> error option \<times> cluster" where
  "reconcileHAConfigMap U rr w =
     (let cmRequest =
            \<lparr> cmObjectMeta = GetObjMeta U (ArgoCDRedisHAConfigMapName rr)
                               (Namespace (rrInstance rr)) (Name (rrInstance rr))
                               (Namespace (rrInstance rr)) (component rr),
              cmData = [haproxyCfgKey \<mapsto> getHAProxyConfig rr,
                        haproxyScriptKey \<mapsto> getHAProxyScript rr,
                        initScriptKey \<mapsto> getInitScript rr,
                        redisConfKey \<mapsto> getConf rr,
                        sentinelConfKey \<mapsto> getSentinelConf rr],
              cmMutations = [],
              cmClient = () \<rparr>
      in case RequestConfigMap cmRequest of
        (desired, Some err) \<Rightarrow>
          (Some (Wrapf err (''reconcileHAConfigMap: failed to request configMap '' @ Name desired
                            @ '' in namespace '' @ Namespace desired)),
           w\<lparr>Log := Log w @ [LogDebug ''reconcileHAConfigMap: one or more mutations could not be applied'']\<rparr>)
      | (desired0, None) \<Rightarrow>
          (let (desired, w1) =
                 (case SetControllerReference (rrInstance rr) desired0 (rrScheme rr) of
                    (d, Some err) \<Rightarrow>
                      (d, w\<lparr>Log := Log w @ [LogError err ''reconcileHAConfigMap: failed to set owner reference for configMap'']\<rparr>)
                  | (d, None) \<Rightarrow> (d, w))
           in case GetConfigMap (Name desired) (Namespace desired) (ConfigMaps w1) of
             (Inl err, c) \<Rightarrow>
               (if \<not> IsNotFound err then
                  (Some (Wrapf err (''reconcileHAConfigMap: failed to retrieve configMap '' @ Name desired
                                    @ '' in namespace '' @ Namespace desired)),
                   w1\<lparr>ConfigMaps := c\<rparr>)
                else
                  (case CreateConfigMap desired c of
                     (Some err', c') \<Rightarrow>
                       (Some (Wrapf err' (''reconcileHAConfigMap: failed to create configMap '' @ Name desired
                                          @ '' in namespace '' @ Namespace desired)),
                        w1\<lparr>ConfigMaps := c'\<rparr>)
                   | (None, c') \<Rightarrow>
                       (None, w1\<lparr>ConfigMaps := c', Log := Log w1 @ [LogInfo ''config map created'']\<rparr>)))
           | (Inr existing, c) \<Rightarrow>
               (let fieldsToCompare =
                      [\<lparr>Existing = ExistingLabels, Desired = DesiredLabels, ExtraAction = None\<rparr>,
                       \<lparr>Existing = ExistingAnnotations, Desired = DesiredAnnotations, ExtraAction = None\<rparr>,
                       \<lparr>Existing = ExistingData, Desired = DesiredData, ExtraAction = None\<rparr>];
                    (h, changed) = UpdateIfChanged fieldsToCompare (cmFields existing desired, False);
                    existing' = existing\<lparr>Labels := h ExistingLabels,
                                          Annotations := h ExistingAnnotations,
                                          Data := h ExistingData\<rparr>
                in if \<not> changed then (None, w1\<lparr>ConfigMaps := c\<rparr>)
                   else
                     (case UpdateConfigMap existing' c of
                        (Some err, c') \<Rightarrow>
                          (Some (Wrapf err (''reconcileHAConfigMap: failed to update configmap '' @ Name existing')),
                           w1\<lparr>ConfigMaps := c'\<rparr>)
                      | (None, c') \<Rightarrow>
                          (None, w1\<lparr>ConfigMaps := c', Log := Log w1 @ [LogInfo ''configmap updated'']\<rparr>)))))"

definition deleteConfigMap ::
  "RedisReconciler \<Rightarrow> string \<Rightarrow> string \<Rightarrow> cluster \<Rightarrow> error option \<times> cluster" where
  "deleteConfigMap rr name namespace w =
     (case DeleteConfigMap name namespace (ConfigMaps w) of
        (Some err, c) \<Rightarrow>
          (if IsNotFound err then (None, w\<lparr>ConfigMaps := c\<rparr>)
           else (Some (Wrapf err (''deleteConfigMap: failed to delete config map '' @ name)),
                 w\<lparr>ConfigMaps := c\<rparr>))
      | (None, c) \<Rightarrow>
          (None, w\<lparr>ConfigMaps := c, Log := Log w @ [LogInfo ''config map deleted'']\<rparr>))"

section \<open>Role bindings of the application set controller (package applicationset)\<close>

text \<open>
  Modelled from the spec: \<^verbatim>\<open>permissions.RoleBindingRequest\<close>, \<^verbatim>\<open>permissions.RequestRoleBinding\<close>,
  \<^verbatim>\<open>GetRoleBinding\<close>, \<^verbatim>\<open>CreateRoleBinding\<close>, \<^verbatim>\<open>UpdateRoleBinding\<close>, \<^verbatim>\<open>DeleteRoleBinding\<close>,
  \<^verbatim>\<open>permissions.GetServiceAccount\<close>, \<^verbatim>\<open>permissions.DeleteRole\<close> and \<^verbatim>\<open>cluster.GetNamespace\<close>
  are not among the sources. They are the builder and the store operations of the spec
  for their kinds, written as their siblings for services in package networking are; the
  builder of role bindings takes no hooks and returns no error at its call site.
  Namespaces are not namespaced themselves: their key has an empty namespace.
\<close>

record RoleBindingRequest =
  rbObjectMeta :: ObjectMeta
  rbRoleRef :: RoleRef
  rbSubjects :: "Subject list"

definition RequestRoleBinding :: "RoleBindingRequest \<Rightarrow> RoleBinding" where
  "RequestRoleBinding request =
     \<lparr> Name = Name (rbObjectMeta request), Namespace = Namespace (rbObjectMeta request),
       Labels = Labels (rbObjectMeta request), Annotations = Annotations (rbObjectMeta request),
       OwnerReferences = OwnerReferences (rbObjectMeta request),
       DeletionTimestamp = DeletionTimestamp (rbObjectMeta request),
       RoleRef = rbRoleRef request, Subjects = rbSubjects request \<rparr>"

definition CreateRoleBinding :: "RoleBinding \<Rightarrow> RoleBinding client \<Rightarrow> error option \<times> RoleBinding client" where
  "CreateRoleBinding roleBinding client = client_Create roleBinding client"

definition GetRoleBinding ::
  "string \<Rightarrow> string \<Rightarrow> RoleBinding client \<Rightarrow> (error + RoleBinding) \<times> RoleBinding client" where
  "GetRoleBinding name namespace client =
     (case client_Get (namespace, name) client of
        (Inl err, client') \<Rightarrow> (Inl err, client')
      | (Inr existingRoleBinding, client') \<Rightarrow> (Inr existingRoleBinding, client'))"

definition UpdateRoleBinding :: "RoleBinding \<Rightarrow> RoleBinding client \<Rightarrow> error option \<times> RoleBinding client" where
  "UpdateRoleBinding roleBinding client =
     (case GetRoleBinding (Name roleBinding) (Namespace roleBinding) client of
        (Inl err, client') \<Rightarrow> (Some err, client')
      | (Inr fetched, client') \<Rightarrow>
          (case client_Update roleBinding client' of
             (Some err, client'') \<Rightarrow> (Some err, client'')
           | (None, client'') \<Rightarrow> (None, client'')))"

definition DeleteRoleBinding :: "string \<Rightarrow> string \<Rightarrow> RoleBinding client \<Rightarrow> error option \<times> RoleBinding client" where
  "DeleteRoleBinding name namespace client =
     (case GetRoleBinding name namespace client of
        (Inl err, client') \<Rightarrow>
          (if \<not> IsNotFound err then (Some err, client') else (None, client'))
      | (Inr existingRoleBinding, client') \<Rightarrow>
          (case client_Delete existingRoleBinding client' of
             (Some err, client'') \<Rightarrow> (Some err, client'')
           | (None, client'') \<Rightarrow> (None, client'')))"

definition GetRole ::
  "string \<Rightarrow> string \<Rightarrow> ObjectMeta client \<Rightarrow> (error + ObjectMeta) \<times> ObjectMeta client" where
  "GetRole name namespace client =
     (case client_Get (namespace, name) client of
        (Inl err, client') \<Rightarrow> (Inl err, client')
      | (Inr existingRole, client') \<Rightarrow> (Inr existingRole, client'))"

definition DeleteRole :: "string \<Rightarrow> string \<Rightarrow> ObjectMeta client \<Rightarrow> error option \<times> ObjectMeta client" where
  "DeleteRole name namespace client =
     (case GetRole name namespace client of
        (Inl err, client') \<Rightarrow>
          (if \<not> IsNotFound err then (Some err, client') else (None, client'))
      | (Inr existingRole, client') \<Rightarrow>
          (case client_Delete existingRole client' of
             (Some err, client'') \<Rightarrow> (Some err, client'')
           | (None, client'') \<Rightarrow> (None, client'')))"

definition GetServiceAccount ::
  "string \<Rightarrow> string \<Rightarrow> ObjectMeta client \<Rightarrow> (error + ObjectMeta) \<times> ObjectMeta client" where
  "GetServiceAccount name namespace client =
     (case client_Get (namespace, name) client of
        (Inl err, client') \<Rightarrow> (Inl err, client')
      | (Inr existingServiceAccount, client') \<Rightarrow> (Inr existingServiceAccount, client'))"

definition GetNamespace ::
  "string \<Rightarrow> ObjectMeta client \<Rightarrow> (error + ObjectMeta) \<times> ObjectMeta client" where
  "GetNamespace name client =
     (case client_Get ('''', name) client of
        (Inl err, client') \<Rightarrow> (Inl err, client')
      | (Inr existingNamespace, client') \<Rightarrow> (Inr existingNamespace, client'))"

text \<open>Constants of the Kubernetes API package \<^verbatim>\<open>rbacv1\<close>.\<close>

definition rbacv1_GroupName :: string where
  "rbacv1_GroupName = ''rbac.authorization.k8s.io''"

definition rbacv1_ServiceAccountKind :: string where
  "rbacv1_ServiceAccountKind = ''ServiceAccount''"

text \<open>
  The receiver \<^verbatim>\<open>asr *ApplicationSetReconciler\<close>: the instance, the scheme, and what is
  read from outside the sources: the package's \<^verbatim>\<open>resourceName\<close> and \<^verbatim>\<open>resourceLabels\<close> and
  the constant \<^verbatim>\<open>common.RoleKind\<close>.
\<close>

record ApplicationSetReconciler =
  asrInstance :: ObjectMeta
  asrScheme :: scheme
  resourceName :: string
  resourceLabels :: "string \<rightharpoonup> string"
  RoleKind :: string

text \<open>
  The references \<^verbatim>\<open>&existingRoleBinding.Subjects\<close> and \<^verbatim>\<open>&desiredRoleBinding.Subjects\<close> of
  the comparator table of \<^verbatim>\<open>reconcileRoleBinding\<close>, and the store of their fields.
\<close>

datatype rbRef = ExistingSubjects | DesiredSubjects

fun rbFields :: "RoleBinding \<Rightarrow> RoleBinding \<Rightarrow> rbRef \<Rightarrow> Subject list" where
  "rbFields existing desired ExistingSubjects = Subjects existing"
| "rbFields existing desired DesiredSubjects = Subjects desired"

definition deleteRoleBinding ::
  "ApplicationSetReconciler \<Rightarrow> string \<Rightarrow> string \<Rightarrow> cluster \<Rightarrow> error option \<times> cluster" where
  "deleteRoleBinding asr name namespace w =
     (case DeleteRoleBinding name namespace (RoleBindings w) of
        (Some err, c) \<Rightarrow>
          (if IsNotFound err then (None, w\<lparr>RoleBindings := c\<rparr>)
           else (Some err,
                 w\<lparr>RoleBindings := c,
                   Log := Log w @ [LogError err ''DeleteRole: failed to delete roleBinding'']\<rparr>))
      | (None, c) \<Rightarrow>
          (None, w\<lparr>RoleBindings := c, Log := Log w @ [LogInfo ''roleBinding deleted'']\<rparr>))"

text \<open>
  Modelled from the spec: the method \<^verbatim>\<open>deleteRole\<close> of the receiver is not among the
  sources (it belongs to the reconciler of roles). It is the delete operation of the spec
  for roles, written as its sibling \<^verbatim>\<open>deleteRoleBinding\<close> is: it acts on the roles of the
  cluster only.
\<close>

definition deleteRole ::
  "ApplicationSetReconciler \<Rightarrow> string \<Rightarrow> string \<Rightarrow> cluster \<Rightarrow> error option \<times> cluster" where
  "deleteRole asr name namespace w =
     (case DeleteRole name namespace (Roles w) of
        (Some err, c) \<Rightarrow>
          (if IsNotFound err then (None, w\<lparr>Roles := c\<rparr>)
           else (Some err,
                 w\<lparr>Roles := c,
                   Log := Log w @ [LogError err ''DeleteRole: failed to delete role'']\<rparr>))
      | (None, c) \<Rightarrow>
          (None, w\<lparr>Roles := c, Log := Log w @ [LogInfo ''role deleted'']\<rparr>))"

text \<open>
  \<^verbatim>\<open>reconcileRoleBinding\<close>. In the branch of a namespace marked for deletion the source
  calls \<^verbatim>\<open>asr.deleteRole\<close> and binds its result to an \<^verbatim>\<open>err\<close> of the \<^verbatim>\<open>if\<close> statement's
  own scope; the \<^verbatim>\<open>return err\<close> after it returns the outer \<^verbatim>\<open>err\<close>, which is nil there
  because \<^verbatim>\<open>GetNamespace\<close> succeeded.
\<close>

definition reconcileRoleBinding ::
  "ApplicationSetReconciler \<Rightarrow> cluster \<Rightarrow> error option \<times> cluster" where
  "reconcileRoleBinding asr w0 =
     (let w = w0\<lparr>Log := Log w0 @ [LogInfo ''reconciling roleBinding'']\<rparr> in
      case GetServiceAccount (resourceName asr) (Namespace (asrInstance asr)) (ServiceAccounts w) of
        (Inl err, sc) \<Rightarrow>
          (Some err,
           w\<lparr>ServiceAccounts := sc,
             Log := Log w @ [LogError err ''reconcileRoleBinding: failed to get serviceaccount'']\<rparr>)
      | (Inr sa, sc) \<Rightarrow>
          (let w1 = w\<lparr>ServiceAccounts := sc\<rparr>;
               roleBindingRequest =
                 \<lparr> rbObjectMeta =
                     \<lparr> Name = resourceName asr,
                       Namespace = Namespace (asrInstance asr),
                       Labels = resourceLabels asr,
                       Annotations = Annotations (asrInstance asr),
                       OwnerReferences = [],
                       DeletionTimestamp = None \<rparr>,
                   rbRoleRef =
                     \<lparr> RoleRefAPIGroup = rbacv1_GroupName,
                       RoleRefKind = RoleKind asr,
                       RoleRefName = resourceName asr \<rparr>,
                   rbSubjects =
                     [\<lparr> SubjectKind = rbacv1_ServiceAccountKind,
                        SubjectName = Name sa,
                        SubjectNamespace = Namespace sa \<rparr>] \<rparr>;
               desiredRoleBinding = RequestRoleBinding roleBindingRequest
           in case GetNamespace (Namespace (asrInstance asr)) (Namespaces w1) of
             (Inl err, nc) \<Rightarrow>
               (Some err,
                w1\<lparr>Namespaces := nc,
                   Log := Log w1 @ [LogError err ''reconcileRole: failed to retrieve namespace'']\<rparr>)
           | (Inr namespace, nc) \<Rightarrow>
               (let w2 = w1\<lparr>Namespaces := nc\<rparr> in
                if DeletionTimestamp namespace \<noteq> None then
                  (case deleteRole asr (Name desiredRoleBinding) (Namespace desiredRoleBinding) w2 of
                     (Some err', w3) \<Rightarrow>
                       (None, w3\<lparr>Log := Log w3 @ [LogError err' ''reconcileRoleBinding: failed to delete roleBinding'']\<rparr>)
                   | (None, w3) \<Rightarrow> (None, w3))
                else
                  (case GetRoleBinding (Name desiredRoleBinding) (Namespace desiredRoleBinding) (RoleBindings w2) of
                     (Inl err, c) \<Rightarrow>
                       (if \<not> IsNotFound err then
                          (Some err,
                           w2\<lparr>RoleBindings := c,
                              Log := Log w2 @ [LogError err ''reconcileRoleBinding: failed to retrieve roleBinding'']\<rparr>)
                        else
                          (let (desired, w3) =
                                 (case SetControllerReference (asrInstance asr) desiredRoleBinding (asrScheme asr) of
                                    (d, Some err') \<Rightarrow>
                                      (d, w2\<lparr>Log := Log w2 @ [LogError err' ''reconcileRole: failed to set owner reference for role'']\<rparr>)
                                  | (d, None) \<Rightarrow> (d, w2))
                           in case CreateRoleBinding desired c of
                             (Some err', c') \<Rightarrow>
                               (Some err',
                                w3\<lparr>RoleBindings := c',
                                   Log := Log w3 @ [LogError err' ''reconcileRoleBinding: failed to create roleBinding'']\<rparr>)
                           | (None, c') \<Rightarrow>
                               (None, w3\<lparr>RoleBindings := c', Log := Log w3 @ [LogInfo ''roleBinding created'']\<rparr>)))
                   | (Inr existingRoleBinding, c) \<Rightarrow>
                       (let w3 = w2\<lparr>RoleBindings := c\<rparr> in
                        if RoleRef existingRoleBinding \<noteq> RoleRef desiredRoleBinding then
                          (let w4 = w3\<lparr>Log := Log w3 @ [LogInfo ''detected drift in roleRef for rolebinding'']\<rparr> in
                           case deleteRoleBinding asr (resourceName asr) (Namespace (asrInstance asr)) w4 of
                             (Some err, w5) \<Rightarrow>
                               (Some (Wrapf err (''reconcileRoleBinding: unable to delete obsolete rolebinding ''
                                                 @ Name existingRoleBinding)), w5)
                           | (None, w5) \<Rightarrow> (None, w5))
                        else
                          (let fieldsToCompare =
                                 [\<lparr>Existing = ExistingSubjects, Desired = DesiredSubjects, ExtraAction = None\<rparr>];
                               (h, rbChanged) =
                                 UpdateIfChanged fieldsToCompare (rbFields existingRoleBinding desiredRoleBinding, False);
                               existing' = existingRoleBinding\<lparr>Subjects := h ExistingSubjects\<rparr>
                           in if \<not> rbChanged then (None, w3)
                              else
                                (case UpdateRoleBinding existing' c of
                                   (Some err, c') \<Rightarrow>
                                     (Some (Wrapf err (''reconcileRoleBinding: failed to update role '' @ Name existing')),
                                      w3\<lparr>RoleBindings := c'\<rparr>)
                                 | (None, c') \<Rightarrow>
                                     (None, w3\<lparr>RoleBindings := c', Log := Log w3 @ [LogInfo ''rolebinding updated'']\<rparr>))))))))"

text \<open>
  What happened during a run of the hooks, for stating properties: the object after all
  hooks ran in order, and the errors of the failing hooks in the order they occurred.
\<close>

fun hooksApplied :: "('c, 'o) MutateFunc list \<Rightarrow> 'c \<Rightarrow> 'o \<Rightarrow> 'o" where
  "hooksApplied [] client obj = obj"
| "hooksApplied (m # ms) client obj = hooksApplied ms client (fst (m client obj))"

fun hookErrors :: "('c, 'o) MutateFunc list \<Rightarrow> 'c \<Rightarrow> 'o \<Rightarrow> error list" where
  "hookErrors [] client obj = []"
| "hookErrors (m # ms) client obj =
     (case snd (m client obj) of
        None \<Rightarrow> hookErrors ms client (fst (m client obj))
      | Some e \<Rightarrow> e # hookErrors ms client (fst (m client obj)))"

text \<open>The error a run of the hooks ends with: the last failure, if any.\<close>

definition lastError :: "error option \<Rightarrow> error list \<Rightarrow> error option" where
  "lastError acc es = (if es = [] then acc else Some (last es))"

text \<open>Example hooks: each records its label on the object; the failing one also returns an error.\<close>

definition labelHook :: "string \<Rightarrow> (unit, Service) MutateFunc" where
  "labelHook k = (\<lambda>client svc. (svc\<lparr>Labels := (Labels svc)(k \<mapsto> ''set'')\<rparr>, None))"

definition failingHook :: "string \<Rightarrow> string \<Rightarrow> (unit, Service) MutateFunc" where
  "failingHook k msg = (\<lambda>client svc. (svc\<lparr>Labels := (Labels svc)(k \<mapsto> ''set'')\<rparr>, Some (Err msg)))"

definition exampleUtil :: argoutil where
  "exampleUtil = \<lparr> GenerateResourceName = (\<lambda>instanceName component. instanceName @ ''-'' @ component),
                   LabelsForCluster = (\<lambda>instanceName component. Map.empty),
                   AnnotationsForCluster = (\<lambda>instanceName instanceNamespace. Map.empty),
                   GetObjMeta = (\<lambda>name namespace instanceName instanceNamespace component.
                      \<lparr> Name = name, Namespace = namespace,
                        Labels = [''app.kubernetes.io/part-of'' \<mapsto> instanceName],
                        Annotations = Map.empty, OwnerReferences = [],
                        DeletionTimestamp = None \<rparr>) \<rparr>"

definition exampleRequest :: "(unit, Service) MutateFunc list \<Rightarrow> unit ServiceRequest" where
  "exampleRequest hooks =
     \<lparr> svcName = '''', svcInstanceName = ''cd1'', svcInstanceNamespace = ''argocd'',
       svcComponent = ''redis'', svcLabels = Map.empty, svcAnnotations = Map.empty,
       svcMutations = hooks, svcClient = () \<rparr>"

definition stsLabelHook :: "string \<Rightarrow> (unit, StatefulSet) MutateFunc" where
  "stsLabelHook k = (\<lambda>client sts. (sts\<lparr>Labels := (Labels sts)(k \<mapsto> ''set'')\<rparr>, None))"

definition stsFailingHook :: "string \<Rightarrow> string \<Rightarrow> (unit, StatefulSet) MutateFunc" where
  "stsFailingHook k msg = (\<lambda>client sts. (sts\<lparr>Labels := (Labels sts)(k \<mapsto> ''set'')\<rparr>, Some (Err msg)))"

definition exampleStsRequest :: "(unit, StatefulSet) MutateFunc list \<Rightarrow> unit StatefulSetRequest" where
  "exampleStsRequest hooks =
     \<lparr> stsName = '''', stsInstanceName = ''cd1'', stsNamespace = ''argocd'',
       stsComponent = ''redis'', stsLabels = Map.empty,
       stsMutations = hooks, stsClient = () \<rparr>"

text \<open>Example config maps and the comparator table of the config map reconcilers.\<close>

definition driftedConfigMap :: ConfigMap where
  "driftedConfigMap =
     \<lparr> Name = ''argocd-redis-ha-configmap'', Namespace = ''argocd'',
       Labels = Map.empty, Annotations = Map.empty, OwnerReferences = [],
       DeletionTimestamp = None, Data = [''redis.conf'' \<mapsto> ''port 6379''] \<rparr>"

definition wantedConfigMap :: ConfigMap where
  "wantedConfigMap =
     \<lparr> Name = ''argocd-redis-ha-configmap'', Namespace = ''argocd'',
       Labels = [''app.kubernetes.io/part-of'' \<mapsto> ''cd1''], Annotations = Map.empty,
       OwnerReferences = [], DeletionTimestamp = None,
       Data = [''redis.conf'' \<mapsto> ''port 6379''] \<rparr>"

definition configMapFields :: "(cmRef, string \<rightharpoonup> string) FieldToCompare list" where
  "configMapFields =
     [\<lparr>Existing = ExistingLabels, Desired = DesiredLabels, ExtraAction = None\<rparr>,
      \<lparr>Existing = ExistingAnnotations, Desired = DesiredAnnotations, ExtraAction = None\<rparr>,
      \<lparr>Existing = ExistingData, Desired = DesiredData, ExtraAction = None\<rparr>]"

text \<open>
  For stating properties of the delete operations: the error, if any, with which the
  store answers the lookup of a key followed, when the lookup succeeds, by the deletion of
  the object found.
\<close>

definition storeError :: "NamespacedName \<Rightarrow> 'a ObjectMeta_scheme client \<Rightarrow> error option" where
  "storeError key c =
     (case fst (client_Get key c) of
        Inl e \<Rightarrow> Some e
      | Inr obj \<Rightarrow> fst (client_Delete obj (snd (client_Get key c))))"

text \<open>
  Example clients: a store that works and holds nothing, and a store that holds the
  service \<open>my-service\<close> and answers the deletion of it with not-found, as it does when
  the object is removed by someone else between the lookup and the deletion.
\<close>

definition emptyClient :: "'o client" where
  "emptyClient = \<lparr> objects = Map.empty, faults = (\<lambda>c. None), calls = [] \<rparr>"

definition exampleService :: Service where
  "exampleService = newService exampleUtil ''my-service'' ''cd1'' ''argocd'' ''redis'' Map.empty Map.empty"

definition exampleStatefulSet :: StatefulSet where
  "exampleStatefulSet = newStatefulSet exampleUtil ''my-set'' ''cd1'' ''argocd'' ''redis'' Map.empty"

definition racingClient :: "Service client" where
  "racingClient =
     \<lparr> objects = [(''argocd'', ''my-service'') \<mapsto> exampleService],
       faults = (\<lambda>c. if c = Delete (''argocd'', ''my-service'')
                      then Some (NotFoundErr ''my-service'') else None),
       calls = [] \<rparr>"

text \<open>
  For stating properties of the reconcilers: the namespaced names under which they look
  their object up.
\<close>

definition haConfigMapKey :: "argoutil \<Rightarrow> RedisReconciler \<Rightarrow> NamespacedName" where
  "haConfigMapKey U rr =
     key_of (GetObjMeta U (ArgoCDRedisHAConfigMapName rr) (Namespace (rrInstance rr))
               (Name (rrInstance rr)) (Namespace (rrInstance rr)) (component rr))"

definition roleBindingKey :: "ApplicationSetReconciler \<Rightarrow> NamespacedName" where
  "roleBindingKey asr = (Namespace (asrInstance asr), resourceName asr)"

definition desiredRoleRef :: "ApplicationSetReconciler \<Rightarrow> RoleRef" where
  "desiredRoleRef asr =
     \<lparr> RoleRefAPIGroup = rbacv1_GroupName, RoleRefKind = RoleKind asr,
       RoleRefName = resourceName asr \<rparr>"

text \<open>
  Example instance, schemes (one that can reference the owner, one that cannot),
  reconcilers and clusters.
\<close>

definition exampleArgoCD :: ObjectMeta where
  "exampleArgoCD =
     \<lparr> Name = ''cd1'', Namespace = ''argocd'', Labels = Map.empty, Annotations = Map.empty,
       OwnerReferences = [], DeletionTimestamp = None \<rparr>"

definition acceptingScheme :: scheme where
  "acceptingScheme = (\<lambda>owner. None)"

definition rejectingScheme :: scheme where
  "rejectingScheme = (\<lambda>owner. Some (Err ''no kind is registered for the owner''))"

definition exampleRedis :: "scheme \<Rightarrow> RedisReconciler" where
  "exampleRedis sch =
     \<lparr> rrInstance = exampleArgoCD, rrScheme = sch,
       getHAProxyConfig = ''defaults'', getHAProxyScript = ''exit 0'', getInitScript = ''exit 0'',
       getConf = ''port 6379'', getSentinelConf = ''port 26379'',
       ArgoCDRedisHAConfigMapName = ''argocd-redis-ha-configmap'', component = ''redis'' \<rparr>"

definition exampleAppSet :: "scheme \<Rightarrow> ApplicationSetReconciler" where
  "exampleAppSet sch =
     \<lparr> asrInstance = exampleArgoCD, asrScheme = sch,
       resourceName = ''cd1-applicationset-controller'',
       resourceLabels = Map.empty, RoleKind = ''Role'' \<rparr>"

definition emptyCluster :: cluster where
  "emptyCluster =
     \<lparr> ConfigMaps = emptyClient, RoleBindings = emptyClient, Roles = emptyClient,
       ServiceAccounts = emptyClient, Namespaces = emptyClient, Log = [] \<rparr>"

definition exampleServiceAccount :: ObjectMeta where
  "exampleServiceAccount =
     \<lparr> Name = ''cd1-applicationset-controller'', Namespace = ''argocd'', Labels = Map.empty,
       Annotations = Map.empty, OwnerReferences = [], DeletionTimestamp = None \<rparr>"

definition exampleNamespace :: "string option \<Rightarrow> ObjectMeta" where
  "exampleNamespace deleted =
     \<lparr> Name = ''argocd'', Namespace = '''', Labels = Map.empty,
       Annotations = Map.empty, OwnerReferences = [], DeletionTimestamp = deleted \<rparr>"

definition exampleRoleBinding :: "string \<Rightarrow> RoleBinding" where
  "exampleRoleBinding role =
     \<lparr> Name = ''cd1-applicationset-controller'', Namespace = ''argocd'', Labels = Map.empty,
       Annotations = Map.empty, OwnerReferences = [''cd1''], DeletionTimestamp = None,
       RoleRef = \<lparr> RoleRefAPIGroup = ''rbac.authorization.k8s.io'', RoleRefKind = ''Role'',
                   RoleRefName = role \<rparr>,
       Subjects = [\<lparr> SubjectKind = ''ServiceAccount'',
                     SubjectName = ''cd1-applicationset-controller'',
                     SubjectNamespace = ''argocd'' \<rparr>] \<rparr>"

text \<open>The service account and the namespace are there; no role binding yet.\<close>

definition readyCluster :: cluster where
  "readyCluster =
     emptyCluster
       \<lparr> ServiceAccounts :=
           emptyClient\<lparr>objects := [(''argocd'', ''cd1-applicationset-controller'') \<mapsto> exampleServiceAccount]\<rparr>,
         Namespaces :=
           emptyClient\<lparr>objects := [('''', ''argocd'') \<mapsto> exampleNamespace None]\<rparr> \<rparr>"

text \<open>As before, with a role binding in the store that references another role.\<close>

definition driftedCluster :: cluster where
  "driftedCluster =
     readyCluster
       \<lparr> RoleBindings :=
           emptyClient\<lparr>objects := [(''argocd'', ''cd1-applicationset-controller'') \<mapsto> exampleRoleBinding ''some-other-role'']\<rparr> \<rparr>"

text \<open>The namespace is marked for deletion and the role binding is in the store.\<close>

definition terminatingCluster :: cluster where
  "terminatingCluster =
     readyCluster
       \<lparr> Namespaces :=
           emptyClient\<lparr>objects := [('''', ''argocd'') \<mapsto> exampleNamespace (Some ''2024-01-01T00:00:00Z'')]\<rparr>,
         RoleBindings :=
           emptyClient\<lparr>objects := [(''argocd'', ''cd1-applicationset-controller'') \<mapsto> exampleRoleBinding ''cd1-applicationset-controller'']\<rparr> \<rparr>"

text \<open>
  For stating properties of the reconcilers: the desired objects they build (before the
  owner reference is attached), and the log entries of an attachment.
\<close>

definition desiredHAConfigMap :: "argoutil \<Rightarrow> RedisReconciler \<Rightarrow> ConfigMap" where
  "desiredHAConfigMap U rr =
     newConfigMap
       (GetObjMeta U (ArgoCDRedisHAConfigMapName rr) (Namespace (rrInstance rr))
          (Name (rrInstance rr)) (Namespace (rrInstance rr)) (component rr))
       [haproxyCfgKey \<mapsto> getHAProxyConfig rr,
        haproxyScriptKey \<mapsto> getHAProxyScript rr,
        initScriptKey \<mapsto> getInitScript rr,
        redisConfKey \<mapsto> getConf rr,
        sentinelConfKey \<mapsto> getSentinelConf rr]"

definition desiredSubjects :: "ObjectMeta \<Rightarrow> Subject list" where
  "desiredSubjects sa =
     [\<lparr> SubjectKind = rbacv1_ServiceAccountKind, SubjectName = Name sa,
        SubjectNamespace = Namespace sa \<rparr>]"

definition desiredRoleBinding :: "ApplicationSetReconciler \<Rightarrow> ObjectMeta \<Rightarrow> RoleBinding" where
  "desiredRoleBinding asr sa =
     \<lparr> Name = resourceName asr, Namespace = Namespace (asrInstance asr),
       Labels = resourceLabels asr, Annotations = Annotations (asrInstance asr),
       OwnerReferences = [], DeletionTimestamp = None,
       RoleRef = desiredRoleRef asr, Subjects = desiredSubjects sa \<rparr>"

definition attachLog :: "scheme \<Rightarrow> ObjectMeta \<Rightarrow> string \<Rightarrow> logEntry list" where
  "attachLog sch owner msg = (case sch owner of Some e \<Rightarrow> [LogError e msg] | None \<Rightarrow> [])"

text \<open>
  The lookups at the head of \<^verbatim>\<open>reconcileRoleBinding\<close> succeed: the store answers the
  reads of the service account and of the instance's namespace, with \<open>sa\<close> and \<open>ns\<close>.
\<close>

definition lookupsSucceed ::
  "ApplicationSetReconciler \<Rightarrow> cluster \<Rightarrow> ObjectMeta \<Rightarrow> ObjectMeta \<Rightarrow> bool" where
  "lookupsSucceed asr w sa ns \<longleftrightarrow>
     faults (ServiceAccounts w) (Get (roleBindingKey asr)) = None
   \<and> objects (ServiceAccounts w) (roleBindingKey asr) = Some sa
   \<and> faults (Namespaces w) (Get ('''', Namespace (asrInstance asr))) = None
   \<and> objects (Namespaces w) ('''', Namespace (asrInstance asr)) = Some ns"

text \<open>A store that answers every call with an error other than not-found.\<close>

definition unavailableClient :: "Service client" where
  "unavailableClient = emptyClient\<lparr>faults := (\<lambda>c. Some (Err ''connection refused''))\<rparr>"

section \<open>Properties of the cluster-config namespace test\<close>

lemma rangeContains_set: "rangeContains ns current \<longleftrightarrow> current \<in> set ns"
  by (induction ns) auto

text \<open>
  C10. \<^verbatim>\<open>IsClusterConfigNs(current)\<close> is true exactly when the configured list is not empty
  and its first element is the wildcard or \<open>current\<close> is one of its elements. A wildcard
  in a later position is an ordinary element: with the list \<open>[a, *]\<close> the namespace \<open>b\<close>
  is not matched, while the same wildcard in first position matches it.
\<close>

theorem IsClusterConfigNs_iff:
  "(IsClusterConfigNs SplitList env current \<longleftrightarrow>
      SplitList env \<noteq> [] \<and> (hd (SplitList env) = ''*'' \<or> current \<in> set (SplitList env)))
   \<and> IsClusterConfigNs (\<lambda>s. [''a'', ''*'']) env0 ''b'' = False
   \<and> IsClusterConfigNs (\<lambda>s. [''*'', ''a'']) env0 ''b'' = True"
  by (auto simp: IsClusterConfigNs_def Let_def rangeContains_set split: list.splits)

section \<open>Properties of the builders\<close>

lemma rangeMutations_obj:
  "fst (rangeMutations ms client (obj, acc)) = hooksApplied ms client obj"
  by (induction ms arbitrary: obj acc) (auto split: prod.splits option.splits)

lemma rangeMutations_err:
  "snd (rangeMutations ms client (obj, acc)) = lastError acc (hookErrors ms client obj)"
proof (induction ms arbitrary: obj acc)
  case Nil
  show ?case by (simp add: lastError_def)
next
  case (Cons m ms)
  obtain obj' r where step: "m client obj = (obj', r)" by (cases "m client obj")
  show ?case
  proof (cases r)
    case None
    with step Cons show ?thesis by (simp add: lastError_def)
  next
    case (Some e)
    with step Cons show ?thesis by (simp add: lastError_def)
  qed
qed

lemma rangeMutations_eq:
  "rangeMutations ms client (obj, acc) =
     (hooksApplied ms client obj, lastError acc (hookErrors ms client obj))"
  using rangeMutations_obj [of ms client obj acc] rangeMutations_err [of ms client obj acc]
  by (simp add: prod_eq_iff)

lemma RequestService_eq:
  "RequestService U r =
     (hooksApplied (svcMutations r) (svcClient r)
        (newService U (svcName r) (svcInstanceName r) (svcInstanceNamespace r) (svcComponent r)
           (svcLabels r) (svcAnnotations r)),
      map_option (\<lambda>e. Err (''RequestService: one or more mutation functions could not be applied: '' @ Error e))
        (lastError None (hookErrors (svcMutations r) (svcClient r)
           (newService U (svcName r) (svcInstanceName r) (svcInstanceNamespace r) (svcComponent r)
              (svcLabels r) (svcAnnotations r)))))"
  by (cases "svcMutations r")
     (simp_all add: RequestService_def Let_def rangeMutations_eq lastError_def split: option.splits)

lemma RequestStatefulSet_eq:
  "RequestStatefulSet U r =
     (hooksApplied (stsMutations r) (stsClient r)
        (newStatefulSet U (stsName r) (stsInstanceName r) (stsNamespace r) (stsComponent r)
           (stsLabels r)),
      map_option (\<lambda>e. Err (''RequestStatefulSet: one or more mutation functions could not be applied: '' @ Error e))
        (lastError None (hookErrors (stsMutations r) (stsClient r)
           (newStatefulSet U (stsName r) (stsInstanceName r) (stsNamespace r) (stsComponent r)
              (stsLabels r)))))"
  by (cases "stsMutations r")
     (simp_all add: RequestStatefulSet_def Let_def rangeMutations_eq lastError_def split: option.splits)

text \<open>
  C1, as the code has it. Every hook of the request runs, in order, each on the object as
  the hooks before it left it, whether or not an earlier hook failed, and the object
  returned is the one all hooks have worked on. The error returned is nil when no hook
  failed; otherwise it is the builder's message followed by the text of the error of the
  last failing hook only.
\<close>

theorem Request_runs_all_hooks_last_error:
  "fst (RequestService U r) =
     hooksApplied (svcMutations r) (svcClient r)
       (newService U (svcName r) (svcInstanceName r) (svcInstanceNamespace r) (svcComponent r)
          (svcLabels r) (svcAnnotations r))
   \<and> snd (RequestService U r) =
     map_option (\<lambda>e. Err (''RequestService: one or more mutation functions could not be applied: '' @ Error e))
       (lastError None (hookErrors (svcMutations r) (svcClient r)
          (newService U (svcName r) (svcInstanceName r) (svcInstanceNamespace r) (svcComponent r)
             (svcLabels r) (svcAnnotations r))))
   \<and> fst (RequestStatefulSet U q) =
     hooksApplied (stsMutations q) (stsClient q)
       (newStatefulSet U (stsName q) (stsInstanceName q) (stsNamespace q) (stsComponent q)
          (stsLabels q))
   \<and> snd (RequestStatefulSet U q) =
     map_option (\<lambda>e. Err (''RequestStatefulSet: one or more mutation functions could not be applied: '' @ Error e))
       (lastError None (hookErrors (stsMutations q) (stsClient q)
          (newStatefulSet U (stsName q) (stsInstanceName q) (stsNamespace q) (stsComponent q)
             (stsLabels q))))"
  by (simp add: RequestService_eq RequestStatefulSet_eq)

text \<open>
  The scenario of the spec: of three hooks the second fails. The first and the third still
  run (the object carries the labels of all three) and the error names the failure of the
  second.
\<close>

theorem Request_runs_all_hooks_witness:
  "Labels (fst (RequestService exampleUtil
      (exampleRequest [labelHook ''h1'', failingHook ''h2'' ''quota exceeded'', labelHook ''h3''])))
     = [''h1'' \<mapsto> ''set'', ''h2'' \<mapsto> ''set'', ''h3'' \<mapsto> ''set'']
   \<and> snd (RequestService exampleUtil
      (exampleRequest [labelHook ''h1'', failingHook ''h2'' ''quota exceeded'', labelHook ''h3'']))
     = Some (Err ''RequestService: one or more mutation functions could not be applied: quota exceeded'')
   \<and> Labels (fst (RequestStatefulSet exampleUtil
      (exampleStsRequest [stsLabelHook ''h1'', stsFailingHook ''h2'' ''quota exceeded'', stsLabelHook ''h3''])))
     = [''h1'' \<mapsto> ''set'', ''h2'' \<mapsto> ''set'', ''h3'' \<mapsto> ''set'']
   \<and> snd (RequestStatefulSet exampleUtil
      (exampleStsRequest [stsLabelHook ''h1'', stsFailingHook ''h2'' ''quota exceeded'', stsLabelHook ''h3'']))
     = Some (Err ''RequestStatefulSet: one or more mutation functions could not be applied: quota exceeded'')"
  using Request_runs_all_hooks_last_error
    [of exampleUtil "exampleRequest [labelHook ''h1'', failingHook ''h2'' ''quota exceeded'', labelHook ''h3'']"
        "exampleStsRequest [stsLabelHook ''h1'', stsFailingHook ''h2'' ''quota exceeded'', stsLabelHook ''h3'']"]
  by (simp add: exampleRequest_def exampleUtil_def newService_def failingHook_def labelHook_def
      exampleStsRequest_def newStatefulSet_def stsFailingHook_def stsLabelHook_def
      MergeMaps_def lastError_def)

text \<open>
  C1, as the claim states it, fails. Of the three hooks below the first and the third fail.
  The error returned carries the text of the third hook's error alone: the text of the
  first hook's error does not occur in it, and the same error is returned when the first
  hook succeeds.
\<close>

theorem Request_error_not_aggregated_counterexample:
  "hookErrors [failingHook ''h1'' ''quota exceeded'', labelHook ''h2'', failingHook ''h3'' ''disk full''] ()
      (newService exampleUtil '''' ''cd1'' ''argocd'' ''redis'' Map.empty Map.empty)
     = [Err ''quota exceeded'', Err ''disk full'']
   \<and> snd (RequestService exampleUtil
      (exampleRequest [failingHook ''h1'' ''quota exceeded'', labelHook ''h2'', failingHook ''h3'' ''disk full'']))
     = Some (Err ''RequestService: one or more mutation functions could not be applied: disk full'')
   \<and> \<not> sublist ''quota exceeded''
        ''RequestService: one or more mutation functions could not be applied: disk full''
   \<and> snd (RequestService exampleUtil
      (exampleRequest [failingHook ''h1'' ''quota exceeded'', labelHook ''h2'', failingHook ''h3'' ''disk full'']))
     = snd (RequestService exampleUtil
      (exampleRequest [labelHook ''h1'', labelHook ''h2'', failingHook ''h3'' ''disk full'']))"
proof -
  have "\<not> sublist ''quota exceeded''
        ''RequestService: one or more mutation functions could not be applied: disk full''"
    by code_simp
  then show ?thesis
    by (simp add: RequestService_def exampleRequest_def exampleUtil_def newService_def
        failingHook_def labelHook_def)
qed

text \<open>
  C7. With an empty explicit name the name of the built object is the generated name of
  the parent (instance) name and the component, so two builds that agree on those two
  receive the same name, whatever else differs between them; a non-empty explicit name is
  the object's name as it stands.
\<close>

theorem generated_name_deterministic:
  "Name (newService U '''' instanceName ns1 tag l1 a1)
     = Name (newService U '''' instanceName ns2 tag l2 a2)
   \<and> Name (newStatefulSet U '''' instanceName ns1 tag l1)
     = Name (newStatefulSet U '''' instanceName ns2 tag l2)
   \<and> Name (newService U '''' instanceName ns1 tag l1 a1)
     = GenerateResourceName U instanceName tag
   \<and> Name (newStatefulSet U '''' instanceName ns1 tag l1)
     = GenerateResourceName U instanceName tag
   \<and> (name \<noteq> '''' \<longrightarrow>
        Name (newService U name instanceName ns1 tag l1 a1) = name
      \<and> Name (newStatefulSet U name instanceName ns1 tag l1) = name)"
  by (simp add: newService_def newStatefulSet_def)

theorem generated_name_deterministic_witness:
  "Name (newService exampleUtil '''' ''cd1'' ''argocd'' ''redis'' Map.empty Map.empty)
     = Name (newService exampleUtil '''' ''cd1'' ''other'' ''redis'' [''k'' \<mapsto> ''v''] Map.empty)
   \<and> Name (newService exampleUtil '''' ''cd1'' ''argocd'' ''redis'' Map.empty Map.empty) = ''cd1-redis''
   \<and> ''my-service'' \<noteq> ''''
   \<and> Name (newService exampleUtil ''my-service'' ''cd1'' ''argocd'' ''redis'' Map.empty Map.empty) = ''my-service''
   \<and> Name (newStatefulSet exampleUtil ''my-service'' ''cd1'' ''argocd'' ''redis'' Map.empty) = ''my-service''"
  using generated_name_deterministic
    [of exampleUtil "''cd1''" "''argocd''" "''redis''" Map.empty Map.empty "''other''"
        "[''k'' \<mapsto> ''v'']" Map.empty "''my-service''"]
  by (simp add: exampleUtil_def newService_def newStatefulSet_def)

section \<open>Properties of the field comparator\<close>

lemma UpdateIfChanged_changed:
  "snd (UpdateIfChanged table (h, changed)) \<longleftrightarrow>
     changed \<or> (\<exists>f\<in>set table. h (Existing f) \<noteq> h (Desired f))"
proof (induction table arbitrary: h changed)
  case Nil
  show ?case by simp
next
  case (Cons f rest)
  show ?case
  proof (cases "h (Existing f) = h (Desired f)")
    case True
    then show ?thesis using Cons.IH [of h changed] by simp
  next
    case False
    then show ?thesis by (simp add: Let_def Cons.IH)
  qed
qed

lemma UpdateIfChanged_fields:
  assumes "distinct (map Existing table)"
    and "set (map Existing table) \<inter> set (map Desired table) = {}"
    and "set (map Existing table) \<union> set (map Desired table) \<subseteq> S"
    and "\<forall>f\<in>set table. \<forall>a. ExtraAction f = Some a \<longrightarrow> (\<forall>h. \<forall>r\<in>S. a h r = h r)"
  shows "(\<forall>f\<in>set table. fst (UpdateIfChanged table (h, changed)) (Existing f) = h (Desired f))
       \<and> (\<forall>r\<in>S - set (map Existing table). fst (UpdateIfChanged table (h, changed)) r = h r)"
  using assms
proof (induction table arbitrary: h changed)
  case Nil
  show ?case by simp
next
  case (Cons f rest)
  have d: "distinct (map Existing rest)"
    and i: "set (map Existing rest) \<inter> set (map Desired rest) = {}"
    and s: "set (map Existing rest) \<union> set (map Desired rest) \<subseteq> S"
    and a: "\<forall>g\<in>set rest. \<forall>a. ExtraAction g = Some a \<longrightarrow> (\<forall>h. \<forall>r\<in>S. a h r = h r)"
    using Cons.prems by auto
  note IH = Cons.IH [OF d i s a]
  have fS: "Existing f \<in> S" "Desired f \<in> S" using Cons.prems(3) by auto
  have fnew: "Existing f \<notin> set (map Existing rest)" using Cons.prems(1) by simp
  have fdes: "\<forall>g\<in>set rest. Desired g \<noteq> Existing f" "Desired f \<noteq> Existing f"
    using Cons.prems(2) by (auto simp: image_iff)
  have gS: "\<forall>g\<in>set rest. Desired g \<in> S \<and> Desired g \<notin> set (map Existing rest)"
    using i s by auto
  show ?case
  proof (cases "h (Existing f) = h (Desired f)")
    case True
    then have eq: "UpdateIfChanged (f # rest) (h, changed) = UpdateIfChanged rest (h, changed)"
      by simp
    show ?thesis unfolding eq using IH [of h changed] True fS fnew by auto
  next
    case False
    define h1 where "h1 = h(Existing f := h (Desired f))"
    define h2 where "h2 = (case ExtraAction f of None \<Rightarrow> h1 | Some action \<Rightarrow> action h1)"
    have eq: "UpdateIfChanged (f # rest) (h, changed) = UpdateIfChanged rest (h2, True)"
      unfolding h2_def h1_def using False by (simp add: Let_def)
    have h2S: "\<forall>r\<in>S. h2 r = h1 r"
      using Cons.prems(4) by (auto simp: h2_def split: option.splits)
    have st: "(\<forall>g\<in>set rest. fst (UpdateIfChanged rest (h2, True)) (Existing g) = h2 (Desired g))"
      and fr: "(\<forall>r\<in>S - set (map Existing rest). fst (UpdateIfChanged rest (h2, True)) r = h2 r)"
      using IH [of h2 True] by auto
    have 1: "fst (UpdateIfChanged rest (h2, True)) (Existing f) = h (Desired f)"
      using fr fS fnew h2S by (simp add: h1_def)
    have 2: "\<forall>g\<in>set rest. fst (UpdateIfChanged rest (h2, True)) (Existing g) = h (Desired g)"
      using st gS h2S fdes by (simp add: h1_def)
    have 3: "\<forall>r\<in>S - set (map Existing (f # rest)). fst (UpdateIfChanged rest (h2, True)) r = h r"
      using fr h2S by (simp add: h1_def)
    show ?thesis unfolding eq using 1 2 3 by simp
  qed
qed

text \<open>
  C2. For a comparator table whose entries reference pairwise distinct existing fields,
  none of them a desired field of the table, and whose actions leave the fields of the
  table alone (every table in the sources is such, with nil actions): the diff returns
  \<open>changed = true\<close> exactly when some entry's existing field differs from its desired
  field; afterwards the existing field of every entry that differed holds the desired
  value, the existing field of every entry that was equal is as it was, and no desired
  field has changed.
\<close>

theorem UpdateIfChanged_diff:
  assumes "distinct (map Existing table)"
    and "set (map Existing table) \<inter> set (map Desired table) = {}"
    and "\<forall>f\<in>set table. \<forall>a. ExtraAction f = Some a \<longrightarrow>
           (\<forall>h. \<forall>r\<in>set (map Existing table) \<union> set (map Desired table). a h r = h r)"
  shows "(snd (UpdateIfChanged table (h, False)) \<longleftrightarrow> (\<exists>f\<in>set table. h (Existing f) \<noteq> h (Desired f)))
       \<and> (\<forall>f\<in>set table. h (Existing f) \<noteq> h (Desired f) \<longrightarrow>
             fst (UpdateIfChanged table (h, False)) (Existing f) = h (Desired f))
       \<and> (\<forall>f\<in>set table. h (Existing f) = h (Desired f) \<longrightarrow>
             fst (UpdateIfChanged table (h, False)) (Existing f) = h (Existing f))
       \<and> (\<forall>f\<in>set table. fst (UpdateIfChanged table (h, False)) (Desired f) = h (Desired f))"
proof -
  let ?S = "set (map Existing table) \<union> set (map Desired table)"
  have sub: "?S \<subseteq> ?S" by simp
  note F = UpdateIfChanged_fields [OF assms(1) assms(2) sub assms(3), of h False]
  have des: "\<forall>f\<in>set table. Desired f \<in> ?S - set (map Existing table)"
    using assms(2) by auto
  show ?thesis using F des by (simp add: UpdateIfChanged_changed)
qed


theorem UpdateIfChanged_diff_witness:
  "snd (UpdateIfChanged configMapFields (cmFields driftedConfigMap wantedConfigMap, False))
   \<and> fst (UpdateIfChanged configMapFields (cmFields driftedConfigMap wantedConfigMap, False)) ExistingLabels
       = [''app.kubernetes.io/part-of'' \<mapsto> ''cd1'']
   \<and> fst (UpdateIfChanged configMapFields (cmFields driftedConfigMap wantedConfigMap, False)) ExistingData
       = [''redis.conf'' \<mapsto> ''port 6379'']
   \<and> \<not> snd (UpdateIfChanged configMapFields (cmFields wantedConfigMap wantedConfigMap, False))"
proof -
  have d: "distinct (map Existing configMapFields)"
    by (simp add: configMapFields_def)
  have i: "set (map Existing configMapFields) \<inter> set (map Desired configMapFields) = {}"
    by (simp add: configMapFields_def)
  have a: "\<forall>f\<in>set configMapFields. \<forall>a. ExtraAction f = Some a \<longrightarrow>
           (\<forall>h. \<forall>r\<in>set (map Existing configMapFields) \<union> set (map Desired configMapFields). a h r = h r)"
    by (simp add: configMapFields_def)
  show ?thesis
    using UpdateIfChanged_diff [OF d i a, of "cmFields driftedConfigMap wantedConfigMap"]
      UpdateIfChanged_diff [OF d i a, of "cmFields wantedConfigMap wantedConfigMap"]
    by (simp add: configMapFields_def driftedConfigMap_def wantedConfigMap_def
        map_upd_nonempty [THEN not_sym] del: UpdateIfChanged.simps)
qed

section \<open>Properties of the store operations\<close>

lemma GetService_eq: "GetService name namespace c = client_Get (namespace, name) c"
  by (simp add: GetService_def split: prod.splits sum.splits)

lemma GetStatefulSet_eq: "GetStatefulSet name namespace c = client_Get (namespace, name) c"
  by (simp add: GetStatefulSet_def split: prod.splits sum.splits)

lemma GetConfigMap_eq: "GetConfigMap name namespace c = client_Get (namespace, name) c"
  by (simp add: GetConfigMap_def split: prod.splits sum.splits)

lemma GetRoleBinding_eq: "GetRoleBinding name namespace c = client_Get (namespace, name) c"
  by (simp add: GetRoleBinding_def split: prod.splits sum.splits)

lemma GetRole_eq: "GetRole name namespace c = client_Get (namespace, name) c"
  by (simp add: GetRole_def split: prod.splits sum.splits)

lemma GetServiceAccount_eq: "GetServiceAccount name namespace c = client_Get (namespace, name) c"
  by (simp add: GetServiceAccount_def split: prod.splits sum.splits)

lemma GetNamespace_eq: "GetNamespace name c = client_Get ('''', name) c"
  by (simp add: GetNamespace_def split: prod.splits sum.splits)

lemma client_Get_snd: "snd (client_Get key c) = c\<lparr>calls := calls c @ [Get key]\<rparr>"
  by (simp add: client_Get_def Let_def split: option.splits)

lemma UpdateService_fetch_failure:
  assumes "fst (client_Get (Namespace service, Name service) c) = Inl e"
  shows "UpdateService service c = (Some e, c\<lparr>calls := calls c @ [Get (Namespace service, Name service)]\<rparr>)"
proof -
  have "client_Get (Namespace service, Name service) c
          = (Inl e, c\<lparr>calls := calls c @ [Get (Namespace service, Name service)]\<rparr>)"
    using assms client_Get_snd [of "(Namespace service, Name service)" c]
    by (simp add: prod_eq_iff)
  then show ?thesis by (simp add: UpdateService_def GetService_eq)
qed

lemma UpdateStatefulSet_fetch_failure:
  assumes "fst (client_Get (Namespace sts, Name sts) c) = Inl e"
  shows "UpdateStatefulSet sts c = (Some e, c\<lparr>calls := calls c @ [Get (Namespace sts, Name sts)]\<rparr>)"
proof -
  have "client_Get (Namespace sts, Name sts) c
          = (Inl e, c\<lparr>calls := calls c @ [Get (Namespace sts, Name sts)]\<rparr>)"
    using assms client_Get_snd [of "(Namespace sts, Name sts)" c]
    by (simp add: prod_eq_iff)
  then show ?thesis by (simp add: UpdateStatefulSet_def GetStatefulSet_eq)
qed

text \<open>
  C9. \<^verbatim>\<open>UpdateService\<close> and \<^verbatim>\<open>UpdateStatefulSet\<close> fetch the object first. When the fetch
  fails with an error, not-found included, that error is returned, the fetch is the only
  call made on the store (no Update is issued) and the objects of the store are as they
  were: updating an absent object fails and does not create it.
\<close>

theorem Update_fetch_failure:
  "(fst (client_Get (Namespace service, Name service) c) = Inl e \<longrightarrow>
      fst (UpdateService service c) = Some e
    \<and> calls (snd (UpdateService service c)) = calls c @ [Get (Namespace service, Name service)]
    \<and> objects (snd (UpdateService service c)) = objects c)
   \<and> (fst (client_Get (Namespace sts, Name sts) d) = Inl e' \<longrightarrow>
      fst (UpdateStatefulSet sts d) = Some e'
    \<and> calls (snd (UpdateStatefulSet sts d)) = calls d @ [Get (Namespace sts, Name sts)]
    \<and> objects (snd (UpdateStatefulSet sts d)) = objects d)"
  by (simp add: UpdateService_fetch_failure UpdateStatefulSet_fetch_failure)

text \<open>On a store that holds nothing, updating fails with not-found and the store still holds nothing.\<close>

theorem Update_fetch_failure_witness:
  "fst (client_Get (Namespace exampleService, Name exampleService) (emptyClient :: Service client))
     = Inl (NotFoundErr ''my-service'')
   \<and> fst (UpdateService exampleService emptyClient) = Some (NotFoundErr ''my-service'')
   \<and> calls (snd (UpdateService exampleService emptyClient)) = [Get (''argocd'', ''my-service'')]
   \<and> objects (snd (UpdateService exampleService emptyClient)) = Map.empty
   \<and> fst (client_Get (Namespace exampleStatefulSet, Name exampleStatefulSet) (emptyClient :: StatefulSet client))
     = Inl (NotFoundErr ''my-set'')
   \<and> fst (UpdateStatefulSet exampleStatefulSet emptyClient) = Some (NotFoundErr ''my-set'')
   \<and> calls (snd (UpdateStatefulSet exampleStatefulSet emptyClient)) = [Get (''argocd'', ''my-set'')]
   \<and> objects (snd (UpdateStatefulSet exampleStatefulSet emptyClient)) = Map.empty"
proof -
  have g1: "fst (client_Get (Namespace exampleService, Name exampleService) (emptyClient :: Service client))
     = Inl (NotFoundErr ''my-service'')"
    by (simp add: client_Get_def emptyClient_def exampleService_def newService_def)
  have g2: "fst (client_Get (Namespace exampleStatefulSet, Name exampleStatefulSet) (emptyClient :: StatefulSet client))
     = Inl (NotFoundErr ''my-set'')"
    by (simp add: client_Get_def emptyClient_def exampleStatefulSet_def newStatefulSet_def)
  have n: "Namespace exampleService = ''argocd''" "Name exampleService = ''my-service''"
    "Namespace exampleStatefulSet = ''argocd''" "Name exampleStatefulSet = ''my-set''"
    by (simp_all add: exampleService_def newService_def exampleStatefulSet_def newStatefulSet_def)
  show ?thesis
    using Update_fetch_failure [of exampleService emptyClient "NotFoundErr ''my-service''"
        exampleStatefulSet emptyClient "NotFoundErr ''my-set''"] g1 g2
    by (simp add: n emptyClient_def)
qed

lemma DeleteService_eq:
  "fst (DeleteService name namespace c) =
     (case fst (client_Get (namespace, name) c) of
        Inl e \<Rightarrow> if IsNotFound e then None else Some e
      | Inr obj \<Rightarrow> fst (client_Delete obj (snd (client_Get (namespace, name) c))))"
  by (cases "client_Get (namespace, name) c")
     (auto simp: DeleteService_def GetService_eq split: sum.splits prod.splits option.splits)

lemma DeleteConfigMap_eq:
  "fst (DeleteConfigMap name namespace c) =
     (case fst (client_Get (namespace, name) c) of
        Inl e \<Rightarrow> if IsNotFound e then None else Some e
      | Inr obj \<Rightarrow> fst (client_Delete obj (snd (client_Get (namespace, name) c))))"
  by (cases "client_Get (namespace, name) c")
     (auto simp: DeleteConfigMap_def GetConfigMap_eq split: sum.splits prod.splits option.splits)

lemma DeleteRoleBinding_eq:
  "fst (DeleteRoleBinding name namespace c) =
     (case fst (client_Get (namespace, name) c) of
        Inl e \<Rightarrow> if IsNotFound e then None else Some e
      | Inr obj \<Rightarrow> fst (client_Delete obj (snd (client_Get (namespace, name) c))))"
  by (cases "client_Get (namespace, name) c")
     (auto simp: DeleteRoleBinding_def GetRoleBinding_eq split: sum.splits prod.splits option.splits)

lemma deleteConfigMap_eq:
  "fst (deleteConfigMap rr name namespace w) =
     (case storeError (namespace, name) (ConfigMaps w) of
        None \<Rightarrow> None
      | Some e \<Rightarrow> if IsNotFound e then None
                  else Some (Wrapf e (''deleteConfigMap: failed to delete config map '' @ name)))"
proof -
  have "fst (deleteConfigMap rr name namespace w) =
     (case fst (DeleteConfigMap name namespace (ConfigMaps w)) of
        None \<Rightarrow> None
      | Some e \<Rightarrow> if IsNotFound e then None
                  else Some (Wrapf e (''deleteConfigMap: failed to delete config map '' @ name)))"
    by (simp add: deleteConfigMap_def split: prod.splits option.splits)
  then show ?thesis
    by (simp add: DeleteConfigMap_eq storeError_def split: sum.splits option.splits)
qed

lemma deleteRoleBinding_eq:
  "fst (deleteRoleBinding asr name namespace w) =
     (case storeError (namespace, name) (RoleBindings w) of
        None \<Rightarrow> None
      | Some e \<Rightarrow> if IsNotFound e then None else Some e)"
proof -
  have "fst (deleteRoleBinding asr name namespace w) =
     (case fst (DeleteRoleBinding name namespace (RoleBindings w)) of
        None \<Rightarrow> None
      | Some e \<Rightarrow> if IsNotFound e then None else Some e)"
    by (simp add: deleteRoleBinding_def split: prod.splits option.splits)
  then show ?thesis
    by (simp add: DeleteRoleBinding_eq storeError_def split: sum.splits option.splits)
qed

text \<open>
  C6, as the code has it. \<^verbatim>\<open>deleteConfigMap\<close> and \<^verbatim>\<open>deleteRoleBinding\<close> return no error
  when the store answers the lookup or the deletion with not-found, and return any other
  store error (the former wrapped). \<^verbatim>\<open>DeleteService\<close> returns no error when the lookup
  answers not-found and returns any other error of the lookup; when the lookup succeeds it
  returns what the store's Delete call answers as it is, a not-found error included.
\<close>

theorem delete_NotFound_policy:
  "fst (deleteConfigMap rr name namespace w) =
     (case storeError (namespace, name) (ConfigMaps w) of
        None \<Rightarrow> None
      | Some e \<Rightarrow> if IsNotFound e then None
                  else Some (Wrapf e (''deleteConfigMap: failed to delete config map '' @ name)))
   \<and> fst (deleteRoleBinding asr name namespace w) =
     (case storeError (namespace, name) (RoleBindings w) of
        None \<Rightarrow> None
      | Some e \<Rightarrow> if IsNotFound e then None else Some e)
   \<and> fst (DeleteService name namespace c) =
     (case fst (client_Get (namespace, name) c) of
        Inl e \<Rightarrow> if IsNotFound e then None else Some e
      | Inr obj \<Rightarrow> fst (client_Delete obj (snd (client_Get (namespace, name) c))))"
  by (simp only: deleteConfigMap_eq deleteRoleBinding_eq DeleteService_eq simp_thms)

text \<open>
  Deleting what the store does not hold succeeds; on a store that refuses every call the
  error of the lookup is returned.
\<close>

theorem delete_NotFound_policy_witness:
  "storeError (''argocd'', ''argocd-redis-ha-configmap'') (ConfigMaps emptyCluster)
     = Some (NotFoundErr ''argocd-redis-ha-configmap'')
   \<and> fst (deleteConfigMap (exampleRedis acceptingScheme) ''argocd-redis-ha-configmap'' ''argocd'' emptyCluster) = None
   \<and> fst (deleteRoleBinding (exampleAppSet acceptingScheme) ''cd1-applicationset-controller'' ''argocd'' emptyCluster) = None
   \<and> fst (DeleteService ''my-service'' ''argocd'' emptyClient) = None
   \<and> fst (DeleteService ''my-service'' ''argocd'' unavailableClient) = Some (Err ''connection refused'')"
proof -
  have 1: "storeError (''argocd'', ''argocd-redis-ha-configmap'') (ConfigMaps emptyCluster)
     = Some (NotFoundErr ''argocd-redis-ha-configmap'')"
    by (simp add: storeError_def client_Get_def emptyCluster_def emptyClient_def)
  have 2: "storeError (''argocd'', ''cd1-applicationset-controller'') (RoleBindings emptyCluster)
     = Some (NotFoundErr ''cd1-applicationset-controller'')"
    by (simp add: storeError_def client_Get_def emptyCluster_def emptyClient_def)
  have 3: "fst (client_Get (''argocd'', ''my-service'') (emptyClient :: Service client))
     = Inl (NotFoundErr ''my-service'')"
    by (simp add: client_Get_def emptyClient_def)
  have 4: "fst (client_Get (''argocd'', ''my-service'') unavailableClient)
     = Inl (Err ''connection refused'')"
    by (simp add: client_Get_def unavailableClient_def emptyClient_def)
  show ?thesis
    using delete_NotFound_policy [of "exampleRedis acceptingScheme" "''argocd-redis-ha-configmap''"
        "''argocd''" emptyCluster]
      delete_NotFound_policy [of _ "''cd1-applicationset-controller''" "''argocd''" emptyCluster
        "exampleAppSet acceptingScheme"]
      delete_NotFound_policy [of _ "''my-service''" "''argocd''" _ _ "emptyClient :: Service client"]
      delete_NotFound_policy [of _ "''my-service''" "''argocd''" _ _ unavailableClient]
    by (simp add: 1 2 3 4)
qed

text \<open>
  C6, as the claim states it, fails for \<^verbatim>\<open>DeleteService\<close>: when the lookup finds the
  service and the store answers the Delete call with not-found, that not-found error is
  returned to the caller.
\<close>

theorem DeleteService_NotFound_counterexample:
  "fst (DeleteService ''my-service'' ''argocd'' racingClient) = Some (NotFoundErr ''my-service'')
   \<and> IsNotFound (NotFoundErr ''my-service'')
   \<and> calls (snd (DeleteService ''my-service'' ''argocd'' racingClient))
       = [Get (''argocd'', ''my-service''), Delete (''argocd'', ''my-service'')]"
  by (simp add: DeleteService_def GetService_eq client_Get_def client_Delete_def key_of_def
      racingClient_def exampleService_def newService_def Let_def)

section \<open>Properties of the reconcilers\<close>

lemma client_Get_absent:
  "faults c (Get key) = None \<Longrightarrow> objects c key = None \<Longrightarrow>
   client_Get key c = (Inl (NotFoundErr (snd key)), c\<lparr>calls := calls c @ [Get key]\<rparr>)"
  by (simp add: client_Get_def)

lemma client_Get_present:
  "faults c (Get key) = None \<Longrightarrow> objects c key = Some obj \<Longrightarrow>
   client_Get key c = (Inr obj, c\<lparr>calls := calls c @ [Get key]\<rparr>)"
  by (simp add: client_Get_def)

lemma client_Create_absent:
  "objects c (key_of obj) = None \<Longrightarrow>
   client_Create obj c =
     (case faults c (Create (key_of obj)) of
        Some e \<Rightarrow> (Some e, c\<lparr>calls := calls c @ [Create (key_of obj)]\<rparr>)
      | None \<Rightarrow> (None, c\<lparr>calls := calls c @ [Create (key_of obj)],
                          objects := (objects c)(key_of obj \<mapsto> obj)\<rparr>))"
  by (simp add: client_Create_def Let_def split: option.splits)

lemma client_Delete_present:
  "objects c (key_of obj) = Some old \<Longrightarrow>
   client_Delete obj c =
     (case faults c (Delete (key_of obj)) of
        Some e \<Rightarrow> (Some e, c\<lparr>calls := calls c @ [Delete (key_of obj)]\<rparr>)
      | None \<Rightarrow> (None, c\<lparr>calls := calls c @ [Delete (key_of obj)],
                          objects := (objects c)(key_of obj := None)\<rparr>))"
  by (simp add: client_Delete_def Let_def split: option.splits)

lemma RequestConfigMap_no_hooks:
  "cmMutations request = [] \<Longrightarrow>
   RequestConfigMap request = (newConfigMap (cmObjectMeta request) (cmData request), None)"
  by (simp add: RequestConfigMap_def)

lemma reconcileHAConfigMap_absent:
  assumes "faults (ConfigMaps w) (Get (haConfigMapKey U rr)) = None"
    and "objects (ConfigMaps w) (haConfigMapKey U rr) = None"
  shows "fst (reconcileHAConfigMap U rr w) =
           map_option (\<lambda>e. Wrapf e (''reconcileHAConfigMap: failed to create configMap ''
                                    @ snd (haConfigMapKey U rr) @ '' in namespace '' @ fst (haConfigMapKey U rr)))
             (faults (ConfigMaps w) (Create (haConfigMapKey U rr)))"
    and "calls (ConfigMaps (snd (reconcileHAConfigMap U rr w))) =
           calls (ConfigMaps w) @ [Get (haConfigMapKey U rr), Create (haConfigMapKey U rr)]"
    and "faults (ConfigMaps (snd (reconcileHAConfigMap U rr w))) = faults (ConfigMaps w)"
    and "objects (ConfigMaps (snd (reconcileHAConfigMap U rr w))) =
           (case faults (ConfigMaps w) (Create (haConfigMapKey U rr)) of
              Some e \<Rightarrow> objects (ConfigMaps w)
            | None \<Rightarrow> (objects (ConfigMaps w))(haConfigMapKey U rr \<mapsto>
                        fst (SetControllerReference (rrInstance rr) (desiredHAConfigMap U rr) (rrScheme rr))))"
    and "Log (snd (reconcileHAConfigMap U rr w)) =
           Log w @ attachLog (rrScheme rr) (rrInstance rr)
                     ''reconcileHAConfigMap: failed to set owner reference for configMap''
                 @ (case faults (ConfigMaps w) (Create (haConfigMapKey U rr)) of
                      Some e \<Rightarrow> [] | None \<Rightarrow> [LogInfo ''config map created''])"
  using assms
  by (auto simp: reconcileHAConfigMap_def RequestConfigMap_no_hooks GetConfigMap_eq
      CreateConfigMap_def SetControllerReference_def newConfigMap_def haConfigMapKey_def key_of_def
      desiredHAConfigMap_def attachLog_def
      client_Get_absent client_Create_absent Let_def split: option.splits prod.splits)

lemma reconcileHAConfigMap_no_drift:
  assumes "faults (ConfigMaps w) (Get (haConfigMapKey U rr)) = None"
    and "objects (ConfigMaps w) (haConfigMapKey U rr) = Some existing"
    and "Labels existing = Labels (desiredHAConfigMap U rr)"
    and "Annotations existing = Annotations (desiredHAConfigMap U rr)"
    and "Data existing = Data (desiredHAConfigMap U rr)"
  shows "fst (reconcileHAConfigMap U rr w) = None"
    and "ConfigMaps (snd (reconcileHAConfigMap U rr w)) =
           (ConfigMaps w)\<lparr>calls := calls (ConfigMaps w) @ [Get (haConfigMapKey U rr)]\<rparr>"
    and "Log (snd (reconcileHAConfigMap U rr w)) =
           Log w @ attachLog (rrScheme rr) (rrInstance rr)
                     ''reconcileHAConfigMap: failed to set owner reference for configMap''"
  using assms
  by (auto simp: reconcileHAConfigMap_def RequestConfigMap_no_hooks GetConfigMap_eq
      SetControllerReference_def newConfigMap_def haConfigMapKey_def key_of_def
      desiredHAConfigMap_def attachLog_def
      client_Get_present Let_def split: option.splits prod.splits)

lemma reconcileRoleBinding_absent:
  assumes "lookupsSucceed asr w sa ns" and "DeletionTimestamp ns = None"
    and "faults (RoleBindings w) (Get (roleBindingKey asr)) = None"
    and "objects (RoleBindings w) (roleBindingKey asr) = None"
  shows "fst (reconcileRoleBinding asr w) = faults (RoleBindings w) (Create (roleBindingKey asr))"
    and "calls (RoleBindings (snd (reconcileRoleBinding asr w))) =
           calls (RoleBindings w) @ [Get (roleBindingKey asr), Create (roleBindingKey asr)]"
    and "faults (RoleBindings (snd (reconcileRoleBinding asr w))) = faults (RoleBindings w)"
    and "objects (RoleBindings (snd (reconcileRoleBinding asr w))) =
           (case faults (RoleBindings w) (Create (roleBindingKey asr)) of
              Some e \<Rightarrow> objects (RoleBindings w)
            | None \<Rightarrow> (objects (RoleBindings w))(roleBindingKey asr \<mapsto>
                        fst (SetControllerReference (asrInstance asr) (desiredRoleBinding asr sa) (asrScheme asr))))"
    and "Log (snd (reconcileRoleBinding asr w)) =
           Log w @ [LogInfo ''reconciling roleBinding'']
                 @ attachLog (asrScheme asr) (asrInstance asr)
                     ''reconcileRole: failed to set owner reference for role''
                 @ (case faults (RoleBindings w) (Create (roleBindingKey asr)) of
                      Some e \<Rightarrow> [LogError e ''reconcileRoleBinding: failed to create roleBinding'']
                    | None \<Rightarrow> [LogInfo ''roleBinding created''])"
    and "ServiceAccounts (snd (reconcileRoleBinding asr w)) =
           (ServiceAccounts w)\<lparr>calls := calls (ServiceAccounts w) @ [Get (roleBindingKey asr)]\<rparr>"
    and "Namespaces (snd (reconcileRoleBinding asr w)) =
           (Namespaces w)\<lparr>calls := calls (Namespaces w) @ [Get ('''', Namespace (asrInstance asr))]\<rparr>"
  using assms
  by (auto simp: reconcileRoleBinding_def lookupsSucceed_def roleBindingKey_def
      GetServiceAccount_eq GetNamespace_eq GetRoleBinding_eq CreateRoleBinding_def
      RequestRoleBinding_def SetControllerReference_def desiredRoleBinding_def desiredRoleRef_def
      desiredSubjects_def attachLog_def key_of_def
      client_Get_absent client_Get_present client_Create_absent Let_def
      split: option.splits prod.splits)

lemma reconcileRoleBinding_no_drift:
  assumes "lookupsSucceed asr w sa ns" and "DeletionTimestamp ns = None"
    and "faults (RoleBindings w) (Get (roleBindingKey asr)) = None"
    and "objects (RoleBindings w) (roleBindingKey asr) = Some existing"
    and "RoleRef existing = desiredRoleRef asr"
    and "Subjects existing = desiredSubjects sa"
  shows "fst (reconcileRoleBinding asr w) = None"
    and "RoleBindings (snd (reconcileRoleBinding asr w)) =
           (RoleBindings w)\<lparr>calls := calls (RoleBindings w) @ [Get (roleBindingKey asr)]\<rparr>"
    and "Log (snd (reconcileRoleBinding asr w)) = Log w @ [LogInfo ''reconciling roleBinding'']"
  using assms
  by (auto simp: reconcileRoleBinding_def lookupsSucceed_def roleBindingKey_def
      GetServiceAccount_eq GetNamespace_eq GetRoleBinding_eq
      RequestRoleBinding_def desiredRoleRef_def desiredSubjects_def
      client_Get_present Let_def
      split: option.splits prod.splits)

lemma reconcileRoleBinding_immutable_drift:
  assumes "lookupsSucceed asr w sa ns" and "DeletionTimestamp ns = None"
    and "faults (RoleBindings w) (Get (roleBindingKey asr)) = None"
    and "objects (RoleBindings w) (roleBindingKey asr) = Some existing"
    and "key_of existing = roleBindingKey asr"
    and "RoleRef existing \<noteq> desiredRoleRef asr"
  shows "fst (reconcileRoleBinding asr w) =
           (case faults (RoleBindings w) (Delete (roleBindingKey asr)) of
              None \<Rightarrow> None
            | Some e \<Rightarrow> if IsNotFound e then None
                        else Some (Wrapf e (''reconcileRoleBinding: unable to delete obsolete rolebinding ''
                                            @ Name existing)))"
    and "calls (RoleBindings (snd (reconcileRoleBinding asr w))) =
           calls (RoleBindings w)
             @ [Get (roleBindingKey asr), Get (roleBindingKey asr), Delete (roleBindingKey asr)]"
    and "objects (RoleBindings (snd (reconcileRoleBinding asr w))) =
           (case faults (RoleBindings w) (Delete (roleBindingKey asr)) of
              None \<Rightarrow> (objects (RoleBindings w))(roleBindingKey asr := None)
            | Some e \<Rightarrow> objects (RoleBindings w))"
    and "Log (snd (reconcileRoleBinding asr w)) =
           Log w @ [LogInfo ''reconciling roleBinding'', LogInfo ''detected drift in roleRef for rolebinding'']
                 @ (case faults (RoleBindings w) (Delete (roleBindingKey asr)) of
                      None \<Rightarrow> [LogInfo ''roleBinding deleted'']
                    | Some e \<Rightarrow> if IsNotFound e then []
                                else [LogError e ''DeleteRole: failed to delete roleBinding''])"
  using assms
  by (auto simp: reconcileRoleBinding_def lookupsSucceed_def roleBindingKey_def
      GetServiceAccount_eq GetNamespace_eq GetRoleBinding_eq
      RequestRoleBinding_def desiredRoleRef_def deleteRoleBinding_def DeleteRoleBinding_def
      client_Get_present client_Delete_present Let_def
      split: option.splits prod.splits)

lemma reconcileRoleBinding_terminating:
  assumes "lookupsSucceed asr w sa ns" and "DeletionTimestamp ns \<noteq> None"
  shows "fst (reconcileRoleBinding asr w) = None"
    and "RoleBindings (snd (reconcileRoleBinding asr w)) = RoleBindings w"
  using assms
  by (auto simp: reconcileRoleBinding_def lookupsSucceed_def roleBindingKey_def
      GetServiceAccount_eq GetNamespace_eq RequestRoleBinding_def deleteRole_def
      client_Get_present Let_def
      split: option.splits prod.splits)

lemma reconcileHAConfigMap_twice:
  assumes nf: "faults (ConfigMaps w) = (\<lambda>c. None)"
    and ab: "objects (ConfigMaps w) (haConfigMapKey U rr) = None"
  shows "fst (reconcileHAConfigMap U rr w) = None"
    and "calls (ConfigMaps (snd (reconcileHAConfigMap U rr w))) =
           calls (ConfigMaps w) @ [Get (haConfigMapKey U rr), Create (haConfigMapKey U rr)]"
    and "objects (ConfigMaps (snd (reconcileHAConfigMap U rr w))) (haConfigMapKey U rr) \<noteq> None"
    and "fst (reconcileHAConfigMap U rr (snd (reconcileHAConfigMap U rr w))) = None"
    and "calls (ConfigMaps (snd (reconcileHAConfigMap U rr (snd (reconcileHAConfigMap U rr w))))) =
           calls (ConfigMaps w)
             @ [Get (haConfigMapKey U rr), Create (haConfigMapKey U rr), Get (haConfigMapKey U rr)]"
    and "objects (ConfigMaps (snd (reconcileHAConfigMap U rr (snd (reconcileHAConfigMap U rr w))))) =
           objects (ConfigMaps (snd (reconcileHAConfigMap U rr w)))"
    and "last (Log (snd (reconcileHAConfigMap U rr w))) = LogInfo ''config map created''"
    and "Log (snd (reconcileHAConfigMap U rr (snd (reconcileHAConfigMap U rr w)))) =
           Log (snd (reconcileHAConfigMap U rr w))
             @ attachLog (rrScheme rr) (rrInstance rr)
                 ''reconcileHAConfigMap: failed to set owner reference for configMap''"
proof -
  let ?k = "haConfigMapKey U rr"
  let ?w1 = "snd (reconcileHAConfigMap U rr w)"
  let ?d = "fst (SetControllerReference (rrInstance rr) (desiredHAConfigMap U rr) (rrScheme rr))"
  have g: "faults (ConfigMaps w) (Get ?k) = None" and c: "faults (ConfigMaps w) (Create ?k) = None"
    using nf by simp_all
  note first = reconcileHAConfigMap_absent [OF g ab]
  show r1: "fst (reconcileHAConfigMap U rr w) = None"
    using first(1) c by simp
  show c1: "calls (ConfigMaps ?w1) = calls (ConfigMaps w) @ [Get ?k, Create ?k]"
    by (rule first(2))
  have o1: "objects (ConfigMaps ?w1) = (objects (ConfigMaps w))(?k \<mapsto> ?d)"
    using first(4) c by simp
  then show "objects (ConfigMaps ?w1) ?k \<noteq> None" by simp
  have g1: "faults (ConfigMaps ?w1) (Get ?k) = None"
    using first(3) g by simp
  have p1: "objects (ConfigMaps ?w1) ?k = Some ?d"
    using o1 by simp
  have same: "Labels ?d = Labels (desiredHAConfigMap U rr)"
    "Annotations ?d = Annotations (desiredHAConfigMap U rr)"
    "Data ?d = Data (desiredHAConfigMap U rr)"
    by (simp_all add: SetControllerReference_def split: option.splits)
  note second = reconcileHAConfigMap_no_drift [OF g1 p1 same]
  show "fst (reconcileHAConfigMap U rr ?w1) = None"
    by (rule second(1))
  show "calls (ConfigMaps (snd (reconcileHAConfigMap U rr ?w1))) =
          calls (ConfigMaps w) @ [Get ?k, Create ?k, Get ?k]"
    using second(2) c1 by simp
  show "objects (ConfigMaps (snd (reconcileHAConfigMap U rr ?w1))) = objects (ConfigMaps ?w1)"
    using second(2) by simp
  show "last (Log ?w1) = LogInfo ''config map created''"
    using first(5) c by simp
  show "Log (snd (reconcileHAConfigMap U rr ?w1)) =
          Log ?w1 @ attachLog (rrScheme rr) (rrInstance rr)
                      ''reconcileHAConfigMap: failed to set owner reference for configMap''"
    by (rule second(3))
qed

lemma reconcileRoleBinding_twice:
  assumes ls: "lookupsSucceed asr v sa ns" and nt: "DeletionTimestamp ns = None"
    and nf: "faults (RoleBindings v) = (\<lambda>c. None)"
    and ab: "objects (RoleBindings v) (roleBindingKey asr) = None"
  shows "fst (reconcileRoleBinding asr v) = None"
    and "calls (RoleBindings (snd (reconcileRoleBinding asr v))) =
           calls (RoleBindings v) @ [Get (roleBindingKey asr), Create (roleBindingKey asr)]"
    and "objects (RoleBindings (snd (reconcileRoleBinding asr v))) (roleBindingKey asr) \<noteq> None"
    and "fst (reconcileRoleBinding asr (snd (reconcileRoleBinding asr v))) = None"
    and "calls (RoleBindings (snd (reconcileRoleBinding asr (snd (reconcileRoleBinding asr v))))) =
           calls (RoleBindings v)
             @ [Get (roleBindingKey asr), Create (roleBindingKey asr), Get (roleBindingKey asr)]"
    and "objects (RoleBindings (snd (reconcileRoleBinding asr (snd (reconcileRoleBinding asr v))))) =
           objects (RoleBindings (snd (reconcileRoleBinding asr v)))"
    and "last (Log (snd (reconcileRoleBinding asr v))) = LogInfo ''roleBinding created''"
    and "Log (snd (reconcileRoleBinding asr (snd (reconcileRoleBinding asr v)))) =
           Log (snd (reconcileRoleBinding asr v)) @ [LogInfo ''reconciling roleBinding'']"
proof -
  let ?k = "roleBindingKey asr"
  let ?v1 = "snd (reconcileRoleBinding asr v)"
  let ?d = "fst (SetControllerReference (asrInstance asr) (desiredRoleBinding asr sa) (asrScheme asr))"
  have g: "faults (RoleBindings v) (Get ?k) = None" and c: "faults (RoleBindings v) (Create ?k) = None"
    using nf by simp_all
  note first = reconcileRoleBinding_absent [OF ls nt g ab]
  show "fst (reconcileRoleBinding asr v) = None"
    using first(1) c by simp
  show c1: "calls (RoleBindings ?v1) = calls (RoleBindings v) @ [Get ?k, Create ?k]"
    by (rule first(2))
  have o1: "objects (RoleBindings ?v1) = (objects (RoleBindings v))(?k \<mapsto> ?d)"
    using first(4) c by simp
  then show "objects (RoleBindings ?v1) ?k \<noteq> None" by simp
  have ls1: "lookupsSucceed asr ?v1 sa ns"
    using ls first(6) first(7) by (simp add: lookupsSucceed_def)
  have g1: "faults (RoleBindings ?v1) (Get ?k) = None"
    using first(3) g by simp
  have p1: "objects (RoleBindings ?v1) ?k = Some ?d"
    using o1 by simp
  have same: "RoleRef ?d = desiredRoleRef asr" "Subjects ?d = desiredSubjects sa"
    by (simp_all add: SetControllerReference_def desiredRoleBinding_def split: option.splits)
  note second = reconcileRoleBinding_no_drift [OF ls1 nt g1 p1 same]
  show "fst (reconcileRoleBinding asr ?v1) = None"
    by (rule second(1))
  show "calls (RoleBindings (snd (reconcileRoleBinding asr ?v1))) =
          calls (RoleBindings v) @ [Get ?k, Create ?k, Get ?k]"
    using second(2) c1 by simp
  show "objects (RoleBindings (snd (reconcileRoleBinding asr ?v1))) = objects (RoleBindings ?v1)"
    using second(2) by simp
  show "last (Log ?v1) = LogInfo ''roleBinding created''"
    using first(5) c by simp
  show "Log (snd (reconcileRoleBinding asr ?v1)) = Log ?v1 @ [LogInfo ''reconciling roleBinding'']"
    by (rule second(3))
qed

text \<open>
  C3. Starting from a store that works and does not hold the object (and, for the role
  binding, answers the lookups of the service account and of a namespace that is not
  marked for deletion), two reconciliations in succession, the second on the state the
  first left: the first returns no error, calls Get and Create on the object's key and
  logs the creation; the second returns no error and only calls Get on the key, no Create
  and no Update, and leaves the objects of the store as they are.
\<close>

theorem converge_twice_created_then_noop:
  assumes "faults (ConfigMaps w) = (\<lambda>c. None)"
    and "objects (ConfigMaps w) (haConfigMapKey U rr) = None"
    and "lookupsSucceed asr v sa ns" and "DeletionTimestamp ns = None"
    and "faults (RoleBindings v) = (\<lambda>c. None)"
    and "objects (RoleBindings v) (roleBindingKey asr) = None"
  shows "fst (reconcileHAConfigMap U rr w) = None
    \<and> calls (ConfigMaps (snd (reconcileHAConfigMap U rr w))) =
           calls (ConfigMaps w) @ [Get (haConfigMapKey U rr), Create (haConfigMapKey U rr)]
    \<and> objects (ConfigMaps (snd (reconcileHAConfigMap U rr w))) (haConfigMapKey U rr) \<noteq> None
    \<and> fst (reconcileHAConfigMap U rr (snd (reconcileHAConfigMap U rr w))) = None
    \<and> calls (ConfigMaps (snd (reconcileHAConfigMap U rr (snd (reconcileHAConfigMap U rr w))))) =
           calls (ConfigMaps w)
             @ [Get (haConfigMapKey U rr), Create (haConfigMapKey U rr), Get (haConfigMapKey U rr)]
    \<and> objects (ConfigMaps (snd (reconcileHAConfigMap U rr (snd (reconcileHAConfigMap U rr w))))) =
           objects (ConfigMaps (snd (reconcileHAConfigMap U rr w)))
    \<and> last (Log (snd (reconcileHAConfigMap U rr w))) = LogInfo ''config map created''
    \<and> Log (snd (reconcileHAConfigMap U rr (snd (reconcileHAConfigMap U rr w)))) =
           Log (snd (reconcileHAConfigMap U rr w))
             @ attachLog (rrScheme rr) (rrInstance rr)
                 ''reconcileHAConfigMap: failed to set owner reference for configMap''
    \<and> fst (reconcileRoleBinding asr v) = None
    \<and> calls (RoleBindings (snd (reconcileRoleBinding asr v))) =
           calls (RoleBindings v) @ [Get (roleBindingKey asr), Create (roleBindingKey asr)]
    \<and> objects (RoleBindings (snd (reconcileRoleBinding asr v))) (roleBindingKey asr) \<noteq> None
    \<and> fst (reconcileRoleBinding asr (snd (reconcileRoleBinding asr v))) = None
    \<and> calls (RoleBindings (snd (reconcileRoleBinding asr (snd (reconcileRoleBinding asr v))))) =
           calls (RoleBindings v)
             @ [Get (roleBindingKey asr), Create (roleBindingKey asr), Get (roleBindingKey asr)]
    \<and> objects (RoleBindings (snd (reconcileRoleBinding asr (snd (reconcileRoleBinding asr v))))) =
           objects (RoleBindings (snd (reconcileRoleBinding asr v)))
    \<and> last (Log (snd (reconcileRoleBinding asr v))) = LogInfo ''roleBinding created''
    \<and> Log (snd (reconcileRoleBinding asr (snd (reconcileRoleBinding asr v)))) =
           Log (snd (reconcileRoleBinding asr v)) @ [LogInfo ''reconciling roleBinding'']"
  using reconcileHAConfigMap_twice [OF assms(1,2)] reconcileRoleBinding_twice [OF assms(3-6)]
  by (intro conjI)

lemma example_keys:
  "haConfigMapKey exampleUtil (exampleRedis sch) = (''argocd'', ''argocd-redis-ha-configmap'')"
  "roleBindingKey (exampleAppSet sch) = (''argocd'', ''cd1-applicationset-controller'')"
  by (simp_all add: haConfigMapKey_def roleBindingKey_def exampleUtil_def exampleRedis_def
      exampleAppSet_def exampleArgoCD_def key_of_def)

lemma example_lookups:
  "lookupsSucceed (exampleAppSet sch) readyCluster exampleServiceAccount (exampleNamespace None)"
  "lookupsSucceed (exampleAppSet sch) driftedCluster exampleServiceAccount (exampleNamespace None)"
  "lookupsSucceed (exampleAppSet sch) terminatingCluster exampleServiceAccount
     (exampleNamespace (Some ''2024-01-01T00:00:00Z''))"
  by (simp_all add: lookupsSucceed_def roleBindingKey_def readyCluster_def driftedCluster_def
      terminatingCluster_def emptyCluster_def emptyClient_def exampleAppSet_def exampleArgoCD_def)

text \<open>
  The config map of the example instance on an empty cluster, and its role binding on a
  cluster that holds the service account and the namespace.
\<close>

theorem converge_twice_witness:
  "fst (reconcileHAConfigMap exampleUtil (exampleRedis acceptingScheme) emptyCluster) = None
   \<and> calls (ConfigMaps (snd (reconcileHAConfigMap exampleUtil (exampleRedis acceptingScheme) emptyCluster)))
       = [Get (''argocd'', ''argocd-redis-ha-configmap''), Create (''argocd'', ''argocd-redis-ha-configmap'')]
   \<and> fst (reconcileHAConfigMap exampleUtil (exampleRedis acceptingScheme)
        (snd (reconcileHAConfigMap exampleUtil (exampleRedis acceptingScheme) emptyCluster))) = None
   \<and> calls (ConfigMaps (snd (reconcileHAConfigMap exampleUtil (exampleRedis acceptingScheme)
        (snd (reconcileHAConfigMap exampleUtil (exampleRedis acceptingScheme) emptyCluster)))))
       = [Get (''argocd'', ''argocd-redis-ha-configmap''), Create (''argocd'', ''argocd-redis-ha-configmap''),
          Get (''argocd'', ''argocd-redis-ha-configmap'')]
   \<and> fst (reconcileRoleBinding (exampleAppSet acceptingScheme) readyCluster) = None
   \<and> calls (RoleBindings (snd (reconcileRoleBinding (exampleAppSet acceptingScheme) readyCluster)))
       = [Get (''argocd'', ''cd1-applicationset-controller''), Create (''argocd'', ''cd1-applicationset-controller'')]
   \<and> fst (reconcileRoleBinding (exampleAppSet acceptingScheme)
        (snd (reconcileRoleBinding (exampleAppSet acceptingScheme) readyCluster))) = None
   \<and> calls (RoleBindings (snd (reconcileRoleBinding (exampleAppSet acceptingScheme)
        (snd (reconcileRoleBinding (exampleAppSet acceptingScheme) readyCluster)))))
       = [Get (''argocd'', ''cd1-applicationset-controller''), Create (''argocd'', ''cd1-applicationset-controller''),
          Get (''argocd'', ''cd1-applicationset-controller'')]"
proof -
  have 1: "faults (ConfigMaps emptyCluster) = (\<lambda>c. None)"
    by (simp add: emptyCluster_def emptyClient_def)
  have 2: "objects (ConfigMaps emptyCluster) (haConfigMapKey exampleUtil (exampleRedis acceptingScheme)) = None"
    by (simp add: emptyCluster_def emptyClient_def)
  have 3: "DeletionTimestamp (exampleNamespace None) = None"
    by (simp add: exampleNamespace_def)
  have 4: "faults (RoleBindings readyCluster) = (\<lambda>c. None)"
    by (simp add: readyCluster_def emptyCluster_def emptyClient_def)
  have 5: "objects (RoleBindings readyCluster) (roleBindingKey (exampleAppSet acceptingScheme)) = None"
    by (simp add: readyCluster_def emptyCluster_def emptyClient_def)
  have 6: "calls (ConfigMaps emptyCluster) = []" "calls (RoleBindings readyCluster) = []"
    by (simp_all add: readyCluster_def emptyCluster_def emptyClient_def)
  show ?thesis
    using converge_twice_created_then_noop [OF 1 2 example_lookups(1) 3 4 5]
    by (simp add: example_keys 6)
qed

text \<open>
  C4. When the lookups at the head of the reconciliation succeed, the namespace is not
  marked for deletion and the store holds the role binding with a \<^verbatim>\<open>RoleRef\<close> that differs
  from the desired one, the calls of the reconciliation on the role bindings of the store
  are the fetch, and the lookup and the Delete of \<^verbatim>\<open>deleteRoleBinding\<close>: no Update and no
  Create. When the store carries the Delete out, no error is returned, the deletion is
  logged, and the role binding is absent afterwards: it is not recreated in the same call.
\<close>

theorem immutable_drift_deletes:
  assumes "lookupsSucceed asr w sa ns" and "DeletionTimestamp ns = None"
    and "faults (RoleBindings w) (Get (roleBindingKey asr)) = None"
    and "objects (RoleBindings w) (roleBindingKey asr) = Some existing"
    and "key_of existing = roleBindingKey asr"
    and "RoleRef existing \<noteq> desiredRoleRef asr"
  shows "calls (RoleBindings (snd (reconcileRoleBinding asr w))) =
           calls (RoleBindings w)
             @ [Get (roleBindingKey asr), Get (roleBindingKey asr), Delete (roleBindingKey asr)]
    \<and> (faults (RoleBindings w) (Delete (roleBindingKey asr)) = None \<longrightarrow>
           fst (reconcileRoleBinding asr w) = None
         \<and> objects (RoleBindings (snd (reconcileRoleBinding asr w))) (roleBindingKey asr) = None
         \<and> last (Log (snd (reconcileRoleBinding asr w))) = LogInfo ''roleBinding deleted'')"
  using reconcileRoleBinding_immutable_drift [OF assms]
  by simp

text \<open>The role binding in the store references another role than the desired one.\<close>

theorem immutable_drift_deletes_witness:
  "calls (RoleBindings (snd (reconcileRoleBinding (exampleAppSet acceptingScheme) driftedCluster)))
     = [Get (''argocd'', ''cd1-applicationset-controller''),
        Get (''argocd'', ''cd1-applicationset-controller''),
        Delete (''argocd'', ''cd1-applicationset-controller'')]
   \<and> fst (reconcileRoleBinding (exampleAppSet acceptingScheme) driftedCluster) = None
   \<and> objects (RoleBindings (snd (reconcileRoleBinding (exampleAppSet acceptingScheme) driftedCluster)))
        (''argocd'', ''cd1-applicationset-controller'') = None
   \<and> last (Log (snd (reconcileRoleBinding (exampleAppSet acceptingScheme) driftedCluster)))
       = LogInfo ''roleBinding deleted''"
proof -
  let ?asr = "exampleAppSet acceptingScheme"
  have 2: "DeletionTimestamp (exampleNamespace None) = None"
    by (simp add: exampleNamespace_def)
  have 3: "faults (RoleBindings driftedCluster) (Get (roleBindingKey ?asr)) = None"
    by (simp add: driftedCluster_def emptyClient_def)
  have 4: "objects (RoleBindings driftedCluster) (roleBindingKey ?asr)
             = Some (exampleRoleBinding ''some-other-role'')"
    by (simp add: driftedCluster_def emptyClient_def example_keys)
  have 5: "key_of (exampleRoleBinding ''some-other-role'') = roleBindingKey ?asr"
    by (simp add: key_of_def exampleRoleBinding_def example_keys)
  have 6: "RoleRef (exampleRoleBinding ''some-other-role'') \<noteq> desiredRoleRef ?asr"
    by (simp add: exampleRoleBinding_def desiredRoleRef_def exampleAppSet_def)
  have 7: "faults (RoleBindings driftedCluster) (Delete (roleBindingKey ?asr)) = None"
    "calls (RoleBindings driftedCluster) = []"
    by (simp_all add: driftedCluster_def emptyClient_def)
  show ?thesis
    using immutable_drift_deletes [OF example_lookups(2) 2 3 4 5 6] 7
    by (simp add: example_keys)
qed

text \<open>
  C5 on the code: the namespace of the instance is marked for deletion and the store holds
  the role binding. The reconciliation returns no error, makes no call at all on the role
  bindings of the store, and the role binding is still there afterwards; the only call of
  the branch is the lookup of a role of that name, by \<^verbatim>\<open>deleteRole\<close>.
\<close>

theorem terminating_namespace_deletes_role_not_roleBinding:
  "DeletionTimestamp (exampleNamespace (Some ''2024-01-01T00:00:00Z'')) \<noteq> None
   \<and> objects (RoleBindings terminatingCluster) (''argocd'', ''cd1-applicationset-controller'')
       = Some (exampleRoleBinding ''cd1-applicationset-controller'')
   \<and> fst (reconcileRoleBinding (exampleAppSet acceptingScheme) terminatingCluster) = None
   \<and> calls (RoleBindings (snd (reconcileRoleBinding (exampleAppSet acceptingScheme) terminatingCluster))) = []
   \<and> objects (RoleBindings (snd (reconcileRoleBinding (exampleAppSet acceptingScheme) terminatingCluster)))
        (''argocd'', ''cd1-applicationset-controller'')
       = Some (exampleRoleBinding ''cd1-applicationset-controller'')
   \<and> calls (Roles (snd (reconcileRoleBinding (exampleAppSet acceptingScheme) terminatingCluster)))
       = [Get (''argocd'', ''cd1-applicationset-controller'')]"
proof -
  let ?asr = "exampleAppSet acceptingScheme"
  have 2: "DeletionTimestamp (exampleNamespace (Some ''2024-01-01T00:00:00Z'')) \<noteq> None"
    by (simp add: exampleNamespace_def)
  note t = reconcileRoleBinding_terminating [OF example_lookups(3) 2, of acceptingScheme]
  have rb: "RoleBindings terminatingCluster =
     emptyClient\<lparr>objects := [(''argocd'', ''cd1-applicationset-controller'') \<mapsto> exampleRoleBinding ''cd1-applicationset-controller'']\<rparr>"
    by (simp add: terminatingCluster_def)
  have roles: "calls (Roles (snd (reconcileRoleBinding ?asr terminatingCluster)))
       = [Get (''argocd'', ''cd1-applicationset-controller'')]"
    by (simp add: reconcileRoleBinding_def GetServiceAccount_eq GetNamespace_eq RequestRoleBinding_def
        deleteRole_def DeleteRole_def GetRole_eq client_Get_def
        terminatingCluster_def readyCluster_def emptyCluster_def emptyClient_def
        exampleAppSet_def exampleArgoCD_def exampleNamespace_def Let_def)
  show ?thesis
    using t 2 roles by (simp add: rb emptyClient_def)
qed

text \<open>
  C8. In the create branch (the object is absent from the store), when attaching the owner
  reference fails with an error, that error is logged, Create is still called on the
  object's key, and what the reconciliation returns is decided by the Create call alone:
  no error when the store carries it out (the object is then stored as built, without
  owner reference), the error of the Create call otherwise, never the attachment error.
\<close>

theorem attach_failure_not_fatal:
  assumes "rrScheme rr (rrInstance rr) = Some e"
    and "faults (ConfigMaps w) (Get (haConfigMapKey U rr)) = None"
    and "objects (ConfigMaps w) (haConfigMapKey U rr) = None"
    and "asrScheme asr (asrInstance asr) = Some e'"
    and "lookupsSucceed asr v sa ns" and "DeletionTimestamp ns = None"
    and "faults (RoleBindings v) (Get (roleBindingKey asr)) = None"
    and "objects (RoleBindings v) (roleBindingKey asr) = None"
  shows "LogError e ''reconcileHAConfigMap: failed to set owner reference for configMap''
           \<in> set (Log (snd (reconcileHAConfigMap U rr w)))
    \<and> calls (ConfigMaps (snd (reconcileHAConfigMap U rr w))) =
           calls (ConfigMaps w) @ [Get (haConfigMapKey U rr), Create (haConfigMapKey U rr)]
    \<and> fst (reconcileHAConfigMap U rr w) =
           map_option (\<lambda>e. Wrapf e (''reconcileHAConfigMap: failed to create configMap ''
                                    @ snd (haConfigMapKey U rr) @ '' in namespace '' @ fst (haConfigMapKey U rr)))
             (faults (ConfigMaps w) (Create (haConfigMapKey U rr)))
    \<and> (faults (ConfigMaps w) (Create (haConfigMapKey U rr)) = None \<longrightarrow>
          objects (ConfigMaps (snd (reconcileHAConfigMap U rr w))) (haConfigMapKey U rr)
            = Some (desiredHAConfigMap U rr))
    \<and> LogError e' ''reconcileRole: failed to set owner reference for role''
           \<in> set (Log (snd (reconcileRoleBinding asr v)))
    \<and> calls (RoleBindings (snd (reconcileRoleBinding asr v))) =
           calls (RoleBindings v) @ [Get (roleBindingKey asr), Create (roleBindingKey asr)]
    \<and> fst (reconcileRoleBinding asr v) = faults (RoleBindings v) (Create (roleBindingKey asr))
    \<and> (faults (RoleBindings v) (Create (roleBindingKey asr)) = None \<longrightarrow>
          objects (RoleBindings (snd (reconcileRoleBinding asr v))) (roleBindingKey asr)
            = Some (desiredRoleBinding asr sa))"
  using reconcileHAConfigMap_absent [OF assms(2,3)] reconcileRoleBinding_absent [OF assms(5-8)]
    assms(1) assms(4)
  by (simp add: attachLog_def SetControllerReference_def)

text \<open>A scheme that cannot reference the owner: both objects are created without owner reference.\<close>

theorem attach_failure_not_fatal_witness:
  "LogError (Err ''no kind is registered for the owner'')
      ''reconcileHAConfigMap: failed to set owner reference for configMap''
     \<in> set (Log (snd (reconcileHAConfigMap exampleUtil (exampleRedis rejectingScheme) emptyCluster)))
   \<and> calls (ConfigMaps (snd (reconcileHAConfigMap exampleUtil (exampleRedis rejectingScheme) emptyCluster)))
       = [Get (''argocd'', ''argocd-redis-ha-configmap''), Create (''argocd'', ''argocd-redis-ha-configmap'')]
   \<and> fst (reconcileHAConfigMap exampleUtil (exampleRedis rejectingScheme) emptyCluster) = None
   \<and> OwnerReferences (the (objects (ConfigMaps (snd (reconcileHAConfigMap exampleUtil (exampleRedis rejectingScheme) emptyCluster)))
        (''argocd'', ''argocd-redis-ha-configmap''))) = []
   \<and> LogError (Err ''no kind is registered for the owner'')
      ''reconcileRole: failed to set owner reference for role''
     \<in> set (Log (snd (reconcileRoleBinding (exampleAppSet rejectingScheme) readyCluster)))
   \<and> calls (RoleBindings (snd (reconcileRoleBinding (exampleAppSet rejectingScheme) readyCluster)))
       = [Get (''argocd'', ''cd1-applicationset-controller''), Create (''argocd'', ''cd1-applicationset-controller'')]
   \<and> fst (reconcileRoleBinding (exampleAppSet rejectingScheme) readyCluster) = None
   \<and> OwnerReferences (the (objects (RoleBindings (snd (reconcileRoleBinding (exampleAppSet rejectingScheme) readyCluster)))
        (''argocd'', ''cd1-applicationset-controller''))) = []"
proof -
  let ?rr = "exampleRedis rejectingScheme"
  let ?asr = "exampleAppSet rejectingScheme"
  have 1: "rrScheme ?rr (rrInstance ?rr) = Some (Err ''no kind is registered for the owner'')"
    by (simp add: exampleRedis_def rejectingScheme_def)
  have 2: "faults (ConfigMaps emptyCluster) (Get (haConfigMapKey exampleUtil ?rr)) = None"
    by (simp add: emptyCluster_def emptyClient_def)
  have 3: "objects (ConfigMaps emptyCluster) (haConfigMapKey exampleUtil ?rr) = None"
    by (simp add: emptyCluster_def emptyClient_def)
  have 4: "asrScheme ?asr (asrInstance ?asr) = Some (Err ''no kind is registered for the owner'')"
    by (simp add: exampleAppSet_def rejectingScheme_def)
  have 6: "DeletionTimestamp (exampleNamespace None) = None"
    by (simp add: exampleNamespace_def)
  have 7: "faults (RoleBindings readyCluster) (Get (roleBindingKey ?asr)) = None"
    by (simp add: readyCluster_def emptyCluster_def emptyClient_def)
  have 8: "objects (RoleBindings readyCluster) (roleBindingKey ?asr) = None"
    by (simp add: readyCluster_def emptyCluster_def emptyClient_def)
  have 9: "faults (ConfigMaps emptyCluster) (Create (haConfigMapKey exampleUtil ?rr)) = None"
    "faults (RoleBindings readyCluster) (Create (roleBindingKey ?asr)) = None"
    "calls (ConfigMaps emptyCluster) = []" "calls (RoleBindings readyCluster) = []"
    by (simp_all add: readyCluster_def emptyCluster_def emptyClient_def)
  have 10: "OwnerReferences (desiredHAConfigMap exampleUtil ?rr) = []"
    "OwnerReferences (desiredRoleBinding ?asr exampleServiceAccount) = []"
    by (simp_all add: desiredHAConfigMap_def newConfigMap_def exampleUtil_def desiredRoleBinding_def)
  show ?thesis
    using attach_failure_not_fatal [OF 1 2 3 4 example_lookups(1) 6 7 8] 9 10
    by (simp add: example_keys)
qed

end
